theory Spec2Isabelle
  imports Main
begin

section \<open>Setup helpers: a shallow embedding of \<open>extension_helpers/setup_helpers.py\<close>\<close>

text \<open>
  The module is a collection of build-time helpers. Its functions read the file system,
  import per-package \<open>setup_package.py\<close> modules, spawn \<open>pkg-config\<close> and keep a small
  dictionary of module-level state. The embedding makes each of these explicit:
  \<^item> everything the functions read from outside the process (file system, imported
    modules, the packaging toolchain, the spawned process) is a field of the record
    \<open>env\<close>;
  \<^item> everything the functions write (the dictionary \<open>_module_state\<close>, emitted warnings,
    registered command options, copied files) is a field of the record \<open>world\<close>, passed
    in and returned;
  \<^item> every exception that the module raises itself, and the one of the file copy in
    \<open>get_package_info\<close>, is a value of type \<open>error\<close>.
\<close>

subsection \<open>Exceptions\<close>

datatype error =
  RuntimeError | ValueError | IndexError | UnicodeDecodeError | FileNotFoundError

subsection \<open>String and path primitives of the Python library\<close>

text \<open>\<open>s.endswith(suffix)\<close>.\<close>

definition endswith :: "string \<Rightarrow> string \<Rightarrow> bool" where
  "endswith s suffix =
     (length suffix \<le> length s \<and> drop (length s - length suffix) s = suffix)"

text \<open>\<open>s.startswith(prefix)\<close>.\<close>

definition startswith :: "string \<Rightarrow> string \<Rightarrow> bool" where
  "startswith s prefix = (take (length prefix) s = prefix)"

text \<open>\<open>s.split(sep)\<close> for a one-character separator: empty fields are kept.\<close>

fun str_split :: "char \<Rightarrow> string \<Rightarrow> string list" where
  "str_split sep [] = [[]]"
| "str_split sep (c # cs) =
     (if c = sep then [] # str_split sep cs
      else (case str_split sep cs of
              [] \<Rightarrow> [[c]]
            | field # fields \<Rightarrow> (c # field) # fields))"

text \<open>\<open>sep.join(parts)\<close>.\<close>

fun str_join :: "string \<Rightarrow> string list \<Rightarrow> string" where
  "str_join sep [] = []"
| "str_join sep [p] = p"
| "str_join sep (p # q # ps) = p @ sep @ str_join sep (q # ps)"

text \<open>
  \<open>os.path.join(a, *p)\<close> of \<open>posixpath\<close>: a component that starts with a slash
  replaces what has been joined so far.
\<close>

fun os_path_join :: "string \<Rightarrow> string list \<Rightarrow> string" where
  "os_path_join path [] = path"
| "os_path_join path (b # p) =
     (if startswith b ''/'' then os_path_join b p
      else if path = [] \<or> endswith path ''/'' then os_path_join (path @ b) p
      else os_path_join (path @ ''/'' @ b) p)"

text \<open>\<open>s.rfind(c)\<close>: the index of the last occurrence of \<open>c\<close>, or \<open>-1\<close>.\<close>

fun rfind_from :: "char \<Rightarrow> string \<Rightarrow> int \<Rightarrow> int \<Rightarrow> int" where
  "rfind_from c [] i found = found"
| "rfind_from c (x # xs) i found = rfind_from c xs (i + 1) (if x = c then i else found)"

definition rfind :: "string \<Rightarrow> char \<Rightarrow> int" where
  "rfind s c = rfind_from c s 0 (-1)"

text \<open>
  \<open>os.path.splitext(p)\<close> of \<open>posixpath\<close> (\<open>genericpath._splitext\<close> with separator
  \<open>/\<close> and extension separator \<open>.\<close>): the extension starts at the last dot of the last
  path component, unless that component consists of leading dots only up to there.
\<close>

function splitext_scan :: "string \<Rightarrow> nat \<Rightarrow> nat \<Rightarrow> string \<times> string" where
  "splitext_scan p filenameIndex dotIndex =
     (if filenameIndex < dotIndex then
        (if p ! filenameIndex \<noteq> CHR ''.'' then (take dotIndex p, drop dotIndex p)
         else splitext_scan p (filenameIndex + 1) dotIndex)
      else (p, []))"
  by pat_completeness auto
termination
  by (relation "measure (\<lambda>(p, filenameIndex, dotIndex). dotIndex - filenameIndex)") auto

definition splitext :: "string \<Rightarrow> string \<times> string" where
  "splitext p =
     (let sepIndex = rfind p CHR ''/'';
          dotIndex = rfind p CHR ''.''
      in if dotIndex > sepIndex then splitext_scan p (nat (sepIndex + 1)) (nat dotIndex)
         else (p, []))"

subsection \<open>Extensions and per-package setup modules\<close>

text \<open>
  A \<open>distutils\<close> \<open>Extension\<close> object, by the attributes the module touches. The
  constructor stores \<open>include_dirs or []\<close>: the argument \<open>None\<close> (the default) and
  the empty list both give the empty list.
\<close>

record extension =
  ext_name :: string
  sources :: "string list"
  include_dirs :: "string list"
  extra_link_args :: "string list"

definition Extension :: "string \<Rightarrow> string list \<Rightarrow> string list option \<Rightarrow> extension" where
  "Extension nm srcs incl =
     \<lparr>ext_name = nm, sources = srcs,
      include_dirs = (case incl of None \<Rightarrow> [] | Some dirs \<Rightarrow> dirs),
      extra_link_args = []\<rparr>"

text \<open>
  An imported \<open>setup_package.py\<close> module: each of the four optional functions is
  \<open>None\<close> when the module has no such attribute (\<open>hasattr\<close> is false), and otherwise
  the value the call returns. A build option is the argument tuple
  \<open>(name, doc, is_bool)\<close> handed to \<open>add_command_option\<close>.
\<close>

type_synonym build_option = "string \<times> string \<times> bool"
type_synonym package_data = "string \<rightharpoonup> string list"

record setup_package =
  get_build_options :: "build_option list option"
  get_external_libraries :: "string list option"
  get_extensions :: "extension list option"
  get_package_data :: "package_data option"

subsection \<open>What the helpers read: the environment\<close>

text \<open>The outcome of spawning a process and waiting for it.\<close>

datatype popen_result =
  Completed string int
| CalledProcessError string int string

text \<open>
  The result of \<open>read_configuration\<close>: a dictionary of sections, of which only
  \<open>options\<close> and its \<open>package_data\<close> entry are read.
\<close>

type_synonym configuration = "string \<rightharpoonup> (string \<rightharpoonup> package_data)"

record env =
  path_exists :: "string \<Rightarrow> bool"
  path_isfile :: "string \<Rightarrow> bool"
  relpath :: "string \<Rightarrow> string"
  realpath :: "string \<Rightarrow> string"
  read_configuration :: "string \<Rightarrow> configuration"
  setuptools_find_packages :: "string \<Rightarrow> string set \<Rightarrow> string list"
  import_file :: "string \<Rightarrow> string \<Rightarrow> setup_package"
  os_walk :: "string \<Rightarrow> (string \<times> string list \<times> string list) list"
  has_hidden_attribute :: "string \<Rightarrow> bool"
  shutil_copy :: "string \<Rightarrow> string \<Rightarrow> error option"
  get_compiler_option :: string
  helpers_src_path :: string
  popen :: "string \<Rightarrow> popen_result"
  fs_decode :: "string \<Rightarrow> string option"

text \<open>
  \<open>os_walk e topdir\<close> is the list of triples \<open>(dirpath, dirnames, filenames)\<close> that a
  top-down \<open>os.walk(topdir)\<close> yields, empty when \<open>topdir\<close> is not a directory that can be
  listed. \<open>shutil_copy e src dst\<close> is the exception that \<open>shutil.copy(src, dst)\<close>
  raises, \<open>None\<close> when the file is copied.
\<close>

subsection \<open>What the helpers write: module state and effects\<close>

text \<open>The dictionary \<open>_module_state\<close>, one field per key.\<close>

record module_state =
  registered_commands :: "(string \<times> string) list option"
  have_sphinx :: bool
  package_cache :: "string list option"
  exclude_packages :: "string set"
  excludes_too_late :: bool

datatype warning =
  ExcludeDeprecated
| PkgConfigFailed string string int string
| PkgConfigLookupFailed "string list"

record world =
  state :: module_state
  warned :: "warning list"
  command_options :: "(string \<times> build_option) list"
  copied :: "(string \<times> string) list"

definition warn :: "warning \<Rightarrow> world \<Rightarrow> world" where
  "warn msg w = w\<lparr>warned := warned w @ [msg]\<rparr>"

subsection \<open>\<open>add_exclude_packages\<close> and \<open>find_packages\<close>\<close>

definition add_exclude_packages :: "string list \<Rightarrow> world \<Rightarrow> (error + unit) \<times> world" where
  "add_exclude_packages excludes w =
     (if excludes_too_late (state w) then (Inl RuntimeError, w)
      else (Inr (),
            w\<lparr>state := (state w)\<lparr>exclude_packages :=
                 exclude_packages (state w) \<union> set excludes\<rparr>\<rparr>))"

definition find_packages ::
  "env \<Rightarrow> string \<Rightarrow> string list \<Rightarrow> bool \<Rightarrow> world \<Rightarrow> string list \<times> world" where
  "find_packages e where' exclude invalidate_cache w =
     (let w1 = (if exclude \<noteq> [] then warn ExcludeDeprecated w else w);
          w2 = w1\<lparr>state := (state w1)\<lparr>excludes_too_late := True\<rparr>\<rparr>
      in case (if invalidate_cache then None else package_cache (state w2)) of
           Some cached \<Rightarrow> (cached, w2)
         | None \<Rightarrow>
             (let packages = setuptools_find_packages e where' (exclude_packages (state w2))
              in (packages, w2\<lparr>state := (state w2)\<lparr>package_cache := Some packages\<rparr>\<rparr>)))"

subsection \<open>Locating \<open>setup_package.py\<close> modules and Cython sources\<close>

text \<open>
  \<open>iter_setup_packages\<close>: the generator's items in the order it yields them, one for
  each package whose directory holds a \<open>setup_package.py\<close> file.
\<close>

fun iter_setup_packages :: "env \<Rightarrow> string \<Rightarrow> string list \<Rightarrow> setup_package list" where
  "iter_setup_packages e srcdir [] = []"
| "iter_setup_packages e srcdir (packagename # packages) =
     (let package_parts = str_split CHR ''.'' packagename;
          package_path = os_path_join srcdir package_parts;
          setup_package = relpath e (os_path_join package_path [''setup_package.py''])
      in (if path_isfile e setup_package
          then [import_file e setup_package (packagename @ ''.setup_package'')]
          else [])
         @ iter_setup_packages e srcdir packages)"

text \<open>
  Modelled from the spec: \<open>is_path_hidden\<close> and \<open>walk_skip_hidden\<close> belong to the sibling
  module \<open>utils\<close>, which is not among the sources; the spec says of them no more than
  that the logic is a sequence of filesystem walks. The model follows their names and
  the call in \<open>iter_pyx_files\<close>: a path is hidden when its name starts with a dot or
  the platform marks it hidden, and \<open>walk_skip_hidden\<close> is \<open>os.walk\<close> with the hidden
  directories and files removed from each triple. (The removal of a hidden directory
  also keeps the walk from entering it; \<open>iter_pyx_files\<close> reads the first triple only.)
\<close>

definition is_path_hidden :: "env \<Rightarrow> string \<Rightarrow> bool" where
  "is_path_hidden e filepath = (startswith filepath ''.'' \<or> has_hidden_attribute e filepath)"

fun walk_skip_hidden_from ::
  "env \<Rightarrow> (string \<times> string list \<times> string list) list \<Rightarrow>
   (string \<times> string list \<times> string list) list" where
  "walk_skip_hidden_from e [] = []"
| "walk_skip_hidden_from e ((root, dirs, files) # rest) =
     (root, filter (\<lambda>d. \<not> is_path_hidden e d) dirs,
            filter (\<lambda>f. \<not> is_path_hidden e f) files)
     # walk_skip_hidden_from e rest"

definition walk_skip_hidden ::
  "env \<Rightarrow> string \<Rightarrow> (string \<times> string list \<times> string list) list" where
  "walk_skip_hidden e topdir = walk_skip_hidden_from e (os_walk e topdir)"

text \<open>The inner loop of \<open>iter_pyx_files\<close> over the file names of one directory.\<close>

fun iter_pyx_filenames :: "env \<Rightarrow> string \<Rightarrow> string \<Rightarrow> string list \<Rightarrow> (string \<times> string) list" where
  "iter_pyx_filenames e dirpath package_name [] = []"
| "iter_pyx_filenames e dirpath package_name (fn # filenames) =
     (if endswith fn ''.pyx'' then
        (let fullfn = relpath e (os_path_join dirpath [fn]);
             extmod = str_join ''.'' [package_name, take (length fn - 4) fn]
         in [(extmod, fullfn)])
      else [])
     @ iter_pyx_filenames e dirpath package_name filenames"

text \<open>
  \<open>iter_pyx_files\<close>: the \<open>break\<close> at the end of the outer loop's body leaves it after
  the first triple of the walk, so that only the top directory is looked at.
\<close>

definition iter_pyx_files :: "env \<Rightarrow> string \<Rightarrow> string \<Rightarrow> (string \<times> string) list" where
  "iter_pyx_files e package_dir package_name =
     (case walk_skip_hidden e package_dir of
        [] \<Rightarrow> []
      | (dirpath, dirnames, filenames) # _ \<Rightarrow>
          iter_pyx_filenames e dirpath package_name filenames)"

subsection \<open>\<open>get_cython_extensions\<close>\<close>

text \<open>The loop over the sources of one previously declared extension.\<close>

fun collect_sources :: "env \<Rightarrow> string list \<Rightarrow> string list \<Rightarrow> string list" where
  "collect_sources e [] prevsourcepaths = prevsourcepaths"
| "collect_sources e (s # ss) prevsourcepaths =
     (if endswith s ''.pyx'' \<or> endswith s ''.c'' \<or> endswith s ''.cpp'' then
        (let sourcepath = realpath e (fst (splitext s))
         in collect_sources e ss (prevsourcepaths @ [sourcepath]))
      else collect_sources e ss prevsourcepaths)"

text \<open>The loop over the previously declared extensions.\<close>

fun collect_prevsourcepaths :: "env \<Rightarrow> extension list \<Rightarrow> string list \<Rightarrow> string list" where
  "collect_prevsourcepaths e [] prevsourcepaths = prevsourcepaths"
| "collect_prevsourcepaths e (ext # prevextensions) prevsourcepaths =
     collect_prevsourcepaths e prevextensions (collect_sources e (sources ext) prevsourcepaths)"

text \<open>The loop over the \<open>.pyx\<close> files of one package.\<close>

fun add_pyx_extensions ::
  "env \<Rightarrow> string list \<Rightarrow> string list option \<Rightarrow> (string \<times> string) list \<Rightarrow>
   extension list \<Rightarrow> extension list" where
  "add_pyx_extensions e prevsourcepaths extincludedirs [] ext_modules = ext_modules"
| "add_pyx_extensions e prevsourcepaths extincludedirs ((extmod, pyxfn) # rest) ext_modules =
     (let sourcepath = realpath e (fst (splitext pyxfn))
      in if sourcepath \<notin> set prevsourcepaths then
           add_pyx_extensions e prevsourcepaths extincludedirs rest
             (ext_modules @ [Extension extmod [pyxfn] extincludedirs])
         else add_pyx_extensions e prevsourcepaths extincludedirs rest ext_modules)"

text \<open>The loop over the packages.\<close>

fun add_package_extensions ::
  "env \<Rightarrow> string \<Rightarrow> string list \<Rightarrow> string list option \<Rightarrow> string list \<Rightarrow>
   extension list \<Rightarrow> extension list" where
  "add_package_extensions e srcdir prevsourcepaths extincludedirs [] ext_modules = ext_modules"
| "add_package_extensions e srcdir prevsourcepaths extincludedirs (package_name # packages)
       ext_modules =
     (let package_parts = str_split CHR ''.'' package_name;
          package_path = os_path_join srcdir package_parts
      in add_package_extensions e srcdir prevsourcepaths extincludedirs packages
           (add_pyx_extensions e prevsourcepaths extincludedirs
              (iter_pyx_files e package_path package_name) ext_modules))"

definition get_cython_extensions ::
  "env \<Rightarrow> string \<Rightarrow> string list \<Rightarrow> extension list \<Rightarrow> string list option \<Rightarrow> extension list"
  where
  "get_cython_extensions e srcdir packages prevextensions extincludedirs =
     (let prevsourcepaths = collect_prevsourcepaths e prevextensions []
      in add_package_extensions e srcdir prevsourcepaths extincludedirs packages [])"

subsection \<open>\<open>pkg_config\<close>\<close>

text \<open>
  The output of the spawned process is a byte string; a \<open>char\<close> is a byte. The
  whitespace of \<open>bytes.strip()\<close> and \<open>bytes.split()\<close> is the ASCII whitespace.
\<close>

definition is_space :: "char \<Rightarrow> bool" where
  "is_space c = (c \<in> set [CHR '' '', CHR 0x09, CHR 0x0A, CHR 0x0B, CHR 0x0C, CHR 0x0D])"

definition bytes_strip :: "string \<Rightarrow> string" where
  "bytes_strip s = dropWhile is_space (rev (dropWhile is_space (rev s)))"

text \<open>\<open>bytes.split()\<close>: the maximal runs of bytes that are not whitespace.\<close>

fun bytes_split_from :: "string \<Rightarrow> string \<Rightarrow> string list" where
  "bytes_split_from token [] = (if token = [] then [] else [token])"
| "bytes_split_from token (c # cs) =
     (if is_space c then (if token = [] then [] else [token]) @ bytes_split_from [] cs
      else bytes_split_from (token @ [c]) cs)"

definition bytes_split :: "string \<Rightarrow> string list" where
  "bytes_split s = bytes_split_from [] s"

text \<open>\<open>b.decode('ascii')\<close> raises on a byte above 127.\<close>

definition decode_ascii :: "string \<Rightarrow> error + string" where
  "decode_ascii b = (if list_all (\<lambda>c. of_char c < (128::nat)) b then Inr b
                     else Inl UnicodeDecodeError)"

text \<open>\<open>value.split('=', 1)\<close>: at most one split, at the first \<open>=\<close>.\<close>

definition split_eq_once :: "string \<Rightarrow> string list" where
  "split_eq_once v =
     (if CHR ''='' \<in> set v
      then [takeWhile (\<lambda>c. c \<noteq> CHR ''='') v, tl (dropWhile (\<lambda>c. c \<noteq> CHR ''='') v)]
      else [v])"

text \<open>
  The values collected for an \<open>Extension\<close> argument: strings, and for
  \<open>define_macros\<close> tuples of one or two strings.
\<close>

datatype arg_value = Str string | Tuple "string list"

text \<open>
  \<open>DistutilsExtensionArgs\<close>, a \<open>defaultdict\<close> whose missing entries are created as
  empty lists on first access: \<open>args_extend d key vals\<close> is \<open>d[key].extend(vals)\<close>.
  The dictionary keeps its keys in the order of their creation.
\<close>

type_synonym DistutilsExtensionArgs = "(string \<times> arg_value list) list"

fun args_extend ::
  "DistutilsExtensionArgs \<Rightarrow> string \<Rightarrow> arg_value list \<Rightarrow> DistutilsExtensionArgs" where
  "args_extend [] key vals = [(key, vals)]"
| "args_extend ((k, vs) # d) key vals =
     (if k = key then (k, vs @ vals) # d else (k, vs) # args_extend d key vals)"

definition args_append ::
  "DistutilsExtensionArgs \<Rightarrow> string \<Rightarrow> arg_value \<Rightarrow> DistutilsExtensionArgs" where
  "args_append d key val = args_extend d key [val]"

definition flag_map :: "(string \<times> string) list" where
  "flag_map = [(''-I'', ''include_dirs''), (''-L'', ''library_dirs''), (''-l'', ''libraries''),
               (''-D'', ''define_macros''), (''-U'', ''undef_macros'')]"

text \<open>The loop over the tokens of a successful lookup.\<close>

fun classify_tokens ::
  "env \<Rightarrow> string list \<Rightarrow> DistutilsExtensionArgs \<Rightarrow> error + DistutilsExtensionArgs" where
  "classify_tokens e [] result = Inr result"
| "classify_tokens e (token # tokens) result =
     (case decode_ascii (take 2 token) of
        Inl err \<Rightarrow> Inl err
      | Inr arg \<Rightarrow>
          (case fs_decode e (drop 2 token) of
             None \<Rightarrow> Inl UnicodeDecodeError
           | Some val \<Rightarrow>
               (case map_of flag_map arg of
                  Some key \<Rightarrow>
                    classify_tokens e tokens
                      (args_append result key
                         (if arg = ''-D'' then Tuple (split_eq_once val) else Str val))
                | None \<Rightarrow>
                    classify_tokens e tokens
                      (args_append result ''extra_compile_args'' (Str val)))))"

definition pkg_config ::
  "env \<Rightarrow> string list \<Rightarrow> string list \<Rightarrow> string \<Rightarrow> world \<Rightarrow>
   (error + DistutilsExtensionArgs) \<times> world" where
  "pkg_config e packages default_libraries executable w =
     (let command = executable @ '' --libs --cflags '' @ str_join '' '' packages;
          result = []
      in case popen e command of
           CalledProcessError cmd returncode out \<Rightarrow>
             (Inr (args_extend result ''libraries'' (map Str default_libraries)),
              warn (PkgConfigFailed executable cmd returncode out) w)
         | Completed out returncode \<Rightarrow>
             (let output = bytes_strip out
              in if returncode \<noteq> 0 then
                   (Inr (args_extend result ''libraries'' (map Str default_libraries)),
                    warn (PkgConfigLookupFailed packages) w)
                 else (classify_tokens e (bytes_split output) result, w)))"

subsection \<open>Registering build options\<close>

text \<open>
  \<open>add_command_option\<close> belongs to the sibling module \<open>distutils_helpers\<close>; here a
  call is recorded with its arguments, in the order the calls are made.
\<close>

definition add_command_option :: "string \<Rightarrow> build_option \<Rightarrow> world \<Rightarrow> world" where
  "add_command_option command option w =
     w\<lparr>command_options := command_options w @ [(command, option)]\<rparr>"

fun add_external_library_loop :: "string list \<Rightarrow> string \<Rightarrow> world \<Rightarrow> world" where
  "add_external_library_loop [] library w = w"
| "add_external_library_loop (command # commands) library w =
     add_external_library_loop commands library
       (add_command_option command
          (''use-system-'' @ library, ''Use the system '' @ library @ '' library'', True) w)"

definition add_external_library :: "string \<Rightarrow> world \<Rightarrow> world" where
  "add_external_library library w =
     add_external_library_loop [''build'', ''build_ext'', ''install''] library w"

subsection \<open>\<open>get_package_info\<close>\<close>

text \<open>The values of the returned dictionary.\<close>

datatype info_value =
  ExtModules "extension list"
| Packages "string list"
| PackageDir "string \<rightharpoonup> string"
| PackageData package_data

type_synonym package_info = "string \<rightharpoonup> info_value"

text \<open>The loops over build options and external libraries of one module.\<close>

fun add_build_options :: "build_option list \<Rightarrow> world \<Rightarrow> world" where
  "add_build_options [] w = w"
| "add_build_options (option # options) w =
     add_build_options options (add_command_option ''build'' option w)"

fun add_external_libraries :: "string list \<Rightarrow> world \<Rightarrow> world" where
  "add_external_libraries [] w = w"
| "add_external_libraries (library # libraries) w =
     add_external_libraries libraries (add_external_library library w)"

text \<open>The first loop over the setup modules: build options and external libraries.\<close>

fun collect_build_options :: "setup_package list \<Rightarrow> world \<Rightarrow> world" where
  "collect_build_options [] w = w"
| "collect_build_options (setuppkg # setuppkgs) w =
     (let w1 = (case get_build_options setuppkg of
                  Some options \<Rightarrow> add_build_options options w
                | None \<Rightarrow> w);
          w2 = (case get_external_libraries setuppkg of
                  Some libraries \<Rightarrow> add_external_libraries libraries w1
                | None \<Rightarrow> w1)
      in collect_build_options setuppkgs w2)"

text \<open>The second loop over the setup modules: extensions and package data.\<close>

fun collect_extensions ::
  "setup_package list \<Rightarrow> extension list \<Rightarrow> package_data \<Rightarrow> extension list \<times> package_data"
  where
  "collect_extensions [] ext_modules package_data = (ext_modules, package_data)"
| "collect_extensions (setuppkg # setuppkgs) ext_modules package_data =
     (let ext_modules1 = (case get_extensions setuppkg of
                            Some exts \<Rightarrow> ext_modules @ exts
                          | None \<Rightarrow> ext_modules);
          package_data1 = (case get_package_data setuppkg of
                             Some pd \<Rightarrow> package_data ++ pd
                           | None \<Rightarrow> package_data)
      in collect_extensions setuppkgs ext_modules1 package_data1)"

text \<open>
  The loop that deletes the extensions named \<open>skip_cython\<close>: it runs over a snapshot of
  the enumerated list, from the last index down, and deletes by index from the list
  itself. \<open>del ext_modules[i]\<close> raises \<open>IndexError\<close> out of range.
\<close>

fun delete_skip_cython ::
  "(nat \<times> extension) list \<Rightarrow> extension list \<Rightarrow> error + extension list" where
  "delete_skip_cython [] ext_modules = Inr ext_modules"
| "delete_skip_cython ((i, ext) # rest) ext_modules =
     (if ext_name ext = ''skip_cython'' then
        (if i < length ext_modules
         then delete_skip_cython rest (take i ext_modules @ drop (Suc i) ext_modules)
         else Inl IndexError)
      else delete_skip_cython rest ext_modules)"

text \<open>The loop that adds the linker argument for Microsoft compilers.\<close>

fun add_manifest :: "extension list \<Rightarrow> extension list" where
  "add_manifest [] = []"
| "add_manifest (ext # exts) =
     ext\<lparr>extra_link_args := extra_link_args ext @ [''/MANIFEST'']\<rparr> # add_manifest exts"

text \<open>
  \<open>min(packages, key=len)\<close>: the first element of least length; \<open>ValueError\<close> on an
  empty list.
\<close>

fun min_len_from :: "string \<Rightarrow> string list \<Rightarrow> string" where
  "min_len_from best [] = best"
| "min_len_from best (p # ps) = min_len_from (if length p < length best then p else best) ps"

definition min_by_len :: "string list \<Rightarrow> error + string" where
  "min_by_len packages = (case packages of [] \<Rightarrow> Inl ValueError
                          | p # ps \<Rightarrow> Inr (min_len_from p ps))"

definition get_package_info ::
  "env \<Rightarrow> string \<Rightarrow> string list \<Rightarrow> world \<Rightarrow> (error + package_info) \<times> world" where
  "get_package_info e srcdir exclude w =
     (let setup_cfg = os_path_join srcdir [''setup.cfg''];
          package_data =
            (if path_exists e setup_cfg then
               (let conf = read_configuration e setup_cfg
                in case conf ''options'' of
                     None \<Rightarrow> Map.empty
                   | Some options \<Rightarrow>
                       (case options ''package_data'' of
                          None \<Rightarrow> Map.empty
                        | Some pd \<Rightarrow> pd))
             else Map.empty);
          w1 = (if exclude \<noteq> [] then warn ExcludeDeprecated w else w);
          (packages, w2) = find_packages e srcdir exclude False w1;
          package_dir = (if srcdir \<noteq> ''.'' then [[] \<mapsto> srcdir] else Map.empty);
          w3 = collect_build_options (iter_setup_packages e srcdir packages) w2;
          (ext_modules1, package_data1) =
            collect_extensions (iter_setup_packages e srcdir packages) [] package_data;
          ext_modules2 =
            ext_modules1 @ get_cython_extensions e srcdir packages ext_modules1 (Some [''numpy''])
      in case delete_skip_cython (rev (enumerate 0 ext_modules2)) ext_modules2 of
           Inl err \<Rightarrow> (Inl err, w3)
         | Inr ext_modules3 \<Rightarrow>
             (let ext_modules4 = (if get_compiler_option e = ''msvc''
                                  then add_manifest ext_modules3 else ext_modules3)
              in if length ext_modules4 > 0 then
                   (case min_by_len packages of
                      Inl err \<Rightarrow> (Inl err, w3)
                    | Inr main_package_dir \<Rightarrow>
                        (let src_path = helpers_src_path e
                         in case shutil_copy e (os_path_join src_path [''compiler.c''])
                                   (os_path_join srcdir [main_package_dir, ''_compiler.c'']) of
                              Some err \<Rightarrow> (Inl err, w3)
                            | None \<Rightarrow>
                                (let w4 = w3\<lparr>copied := copied w3 @
                                       [(os_path_join src_path [''compiler.c''],
                                         os_path_join srcdir
                                           [main_package_dir, ''_compiler.c''])]\<rparr>;
                                     ext = Extension (main_package_dir @ ''.compiler_version'')
                                             [os_path_join main_package_dir [''_compiler.c'']] None
                                 in (Inr [''ext_modules'' \<mapsto> ExtModules (ext_modules4 @ [ext]),
                                          ''packages'' \<mapsto> Packages packages,
                                          ''package_dir'' \<mapsto> PackageDir package_dir,
                                          ''package_data'' \<mapsto> PackageData package_data1],
                                     w4))))
                 else (Inr [''ext_modules'' \<mapsto> ExtModules ext_modules4,
                            ''packages'' \<mapsto> Packages packages,
                            ''package_dir'' \<mapsto> PackageDir package_dir,
                            ''package_data'' \<mapsto> PackageData package_data1], w3)))"

subsection \<open>A concrete source tree\<close>

text \<open>
  The module state right after the module has been loaded (with the optional
  documentation dependency absent), and a world in which nothing has happened yet.
\<close>

definition initial_module_state :: module_state where
  "initial_module_state =
     \<lparr>registered_commands = None, have_sphinx = False, package_cache = None,
      exclude_packages = {}, excludes_too_late = False\<rparr>"

definition initial_world :: world where
  "initial_world =
     \<lparr>state = initial_module_state, warned = [], command_options = [], copied = []\<rparr>"

text \<open>
  A source tree in the style of the package of \<open>test_cython_autoextensions\<close>: the
  packages \<open>yoda\<close> and \<open>yoda.luke\<close> under \<open>test_pkg\<close>, the Cython source
  \<open>yoda/luke/dagobah.pyx\<close>, and in addition a \<open>setup_package.py\<close> in \<open>yoda\<close>
  that declares a C extension, the marker extension \<open>skip_cython\<close> and package data,
  a \<open>setup.cfg\<close> with package data of its own, and a hidden file \<open>.hidden.pyx\<close> beside
  \<open>dagobah.pyx\<close>. A file can be copied into the three directories of the tree and
  nowhere else.
\<close>

definition yoda_setup_package :: setup_package where
  "yoda_setup_package =
     \<lparr>get_build_options = Some [(''fast'', ''Build fast'', True)],
      get_external_libraries = Some [''expat''],
      get_extensions = Some [Extension ''skip_cython'' [] None,
                             Extension ''yoda.unit01'' [''test_pkg/yoda/unit01.c''] None],
      get_package_data = Some [''yoda'' \<mapsto> [''data/*'']]\<rparr>"

definition no_setup_package :: setup_package where
  "no_setup_package =
     \<lparr>get_build_options = None, get_external_libraries = None,
      get_extensions = None, get_package_data = None\<rparr>"

definition test_pkg_env :: env where
  "test_pkg_env =
     \<lparr>path_exists = (\<lambda>p. p = ''test_pkg/setup.cfg''),
      path_isfile = (\<lambda>p. p = ''test_pkg/yoda/setup_package.py''),
      relpath = (\<lambda>p. p),
      realpath = (\<lambda>p. ''/tmp/'' @ p),
      read_configuration =
        (\<lambda>p. [''options'' \<mapsto>
                [''package_data'' \<mapsto> [''yoda'' \<mapsto> [''*.txt''], ''*'' \<mapsto> [''*.rst'']]]]),
      setuptools_find_packages =
        (\<lambda>where' exclude. filter (\<lambda>p. p \<notin> exclude) [''yoda'', ''yoda.luke'']),
      import_file = (\<lambda>p nm. if p = ''test_pkg/yoda/setup_package.py''
                             then yoda_setup_package else no_setup_package),
      os_walk =
        (\<lambda>topdir. if topdir = ''test_pkg/yoda''
                then [(''test_pkg/yoda'', [''luke''], [''__init__.py'', ''unit01.c'']),
                      (''test_pkg/yoda/luke'', [],
                       [''__init__.py'', ''.hidden.pyx'', ''dagobah.pyx''])]
                else if topdir = ''test_pkg/yoda/luke''
                then [(''test_pkg/yoda/luke'', [],
                       [''__init__.py'', ''.hidden.pyx'', ''dagobah.pyx''])]
                else []),
      has_hidden_attribute = (\<lambda>p. False),
      shutil_copy =
        (\<lambda>src dst. if dst \<in> set [''test_pkg/_compiler.c'', ''test_pkg/yoda/_compiler.c'',
                                    ''test_pkg/yoda/luke/_compiler.c'']
                    then None else Some FileNotFoundError),
      get_compiler_option = ''unix'',
      helpers_src_path = ''extension_helpers/src'',
      popen = (\<lambda>command. if command = ''pkg-config --libs --cflags libfoo''
                          then Completed (''-I/opt/foo -lfoo -pthread'' @ [CHR 0x0A]) 0
                          else Completed [] 1),
      fs_decode = (\<lambda>b. Some b)\<rparr>"

subsection \<open>Notions used in the statements\<close>

text \<open>
  The extensions and the package data that the imported setup modules declare, the
  package data read from \<open>setup.cfg\<close>, and the extension list of \<open>get_package_info\<close>
  at the stages it goes through: kept (the declared and the discovered extensions
  without those named \<open>skip_cython\<close>), built (with the linker argument under a
  Microsoft compiler), final (with the compiler-version extension of the main package,
  the first package of least length). These are
  abbreviations: a statement that uses one of them is a statement about the expanded
  term.
\<close>

abbreviation declared_extensions :: "setup_package list \<Rightarrow> extension list" where
  "declared_extensions mods \<equiv>
     concat (map (\<lambda>m. case get_extensions m of Some exts \<Rightarrow> exts | None \<Rightarrow> []) mods)"

abbreviation declared_package_data :: "setup_package list \<Rightarrow> package_data list" where
  "declared_package_data mods \<equiv>
     concat (map (\<lambda>m. case get_package_data m of Some pd \<Rightarrow> [pd] | None \<Rightarrow> []) mods)"

abbreviation configured_package_data :: "env \<Rightarrow> string \<Rightarrow> package_data" where
  "configured_package_data e srcdir \<equiv>
     (if path_exists e (os_path_join srcdir [''setup.cfg'']) then
        (case read_configuration e (os_path_join srcdir [''setup.cfg'']) ''options'' of
           None \<Rightarrow> Map.empty
         | Some options \<Rightarrow>
             (case options ''package_data'' of None \<Rightarrow> Map.empty | Some pd \<Rightarrow> pd))
      else Map.empty)"

abbreviation kept_extensions :: "env \<Rightarrow> string \<Rightarrow> string list \<Rightarrow> extension list" where
  "kept_extensions e srcdir packages \<equiv>
     filter (\<lambda>x. ext_name x \<noteq> ''skip_cython'')
       (declared_extensions (iter_setup_packages e srcdir packages) @
        get_cython_extensions e srcdir packages
          (declared_extensions (iter_setup_packages e srcdir packages)) (Some [''numpy'']))"

abbreviation built_extensions :: "env \<Rightarrow> string \<Rightarrow> string list \<Rightarrow> extension list" where
  "built_extensions e srcdir packages \<equiv>
     (if get_compiler_option e = ''msvc'' then add_manifest (kept_extensions e srcdir packages)
      else kept_extensions e srcdir packages)"

abbreviation main_package :: "string list \<Rightarrow> string" where
  "main_package packages \<equiv> min_len_from (hd packages) (tl packages)"

abbreviation final_extensions :: "env \<Rightarrow> string \<Rightarrow> string list \<Rightarrow> extension list" where
  "final_extensions e srcdir packages \<equiv>
     (if kept_extensions e srcdir packages = [] then []
      else built_extensions e srcdir packages @
           [Extension (main_package packages @ ''.compiler_version'')
              [os_path_join (main_package packages) [''_compiler.c'']] None])"

text \<open>
  The exception of the file copy in \<open>get_package_info\<close>: the copy is attempted when
  the list of kept extensions is not empty, from \<open>compiler.c\<close> of the helpers to
  \<open>_compiler.c\<close> under the joined path of \<open>srcdir\<close> and the main package name.
\<close>

abbreviation compiler_copy_error :: "env \<Rightarrow> string \<Rightarrow> string list \<Rightarrow> error option" where
  "compiler_copy_error e srcdir packages \<equiv>
     (if kept_extensions e srcdir packages = [] then None
      else shutil_copy e (os_path_join (helpers_src_path e) [''compiler.c''])
             (os_path_join srcdir [main_package packages, ''_compiler.c'']))"

text \<open>
  A \<open>.pyx\<close> file is already declared when a source of a previously declared extension
  that ends in \<open>.pyx\<close>, \<open>.c\<close> or \<open>.cpp\<close> has the same real path once the file
  extensions are stripped.
\<close>

abbreviation already_declared :: "env \<Rightarrow> extension list \<Rightarrow> string \<Rightarrow> bool" where
  "already_declared e prevextensions pyxfn \<equiv>
     (\<exists>prev \<in> set prevextensions. \<exists>s \<in> set (sources prev).
        (endswith s ''.pyx'' \<or> endswith s ''.c'' \<or> endswith s ''.cpp'')
        \<and> realpath e (fst (splitext s)) = realpath e (fst (splitext pyxfn)))"

section \<open>Properties\<close>

subsection \<open>Module state: the exclusion set and the package cache\<close>

lemma state_warn [simp]: "state (warn msg w) = state w"
  by (simp add: warn_def)

lemma copied_warn [simp]: "copied (warn msg w) = copied w"
  by (simp add: warn_def)

lemma find_packages_state:
  "state (snd (find_packages e where' exclude invalidate_cache w)) =
     (state w)\<lparr>excludes_too_late := True,
               package_cache := Some (fst (find_packages e where' exclude invalidate_cache w))\<rparr>"
  by (cases "package_cache (state w)") (simp_all add: find_packages_def Let_def)

lemma find_packages_fst:
  "fst (find_packages e where' exclude invalidate_cache w) =
     (case (if invalidate_cache then None else package_cache (state w)) of
        Some cached \<Rightarrow> cached
      | None \<Rightarrow> setuptools_find_packages e where' (exclude_packages (state w)))"
  by (cases "package_cache (state w)") (simp_all add: find_packages_def Let_def)

text \<open>
  Claim C5. \<open>add_exclude_packages\<close> raises \<open>RuntimeError\<close> if and only if the flag
  \<open>excludes_too_late\<close> is set, and every call of \<open>find_packages\<close> sets that flag,
  whether it answers from the cache or not. When the call does not raise, the given
  names are added to the exclusion set and nothing else changes; when it raises,
  nothing changes at all.
\<close>

theorem add_exclude_packages_raises_iff_finalized:
  "(fst (add_exclude_packages excludes w) = Inl RuntimeError) = excludes_too_late (state w)
   \<and> (fst (add_exclude_packages excludes w) = Inr ()) = (\<not> excludes_too_late (state w))
   \<and> excludes_too_late (state (snd (find_packages e where' exclude invalidate_cache w)))
   \<and> (\<not> excludes_too_late (state w) \<longrightarrow>
        snd (add_exclude_packages excludes w) =
          w\<lparr>state := (state w)\<lparr>exclude_packages := exclude_packages (state w) \<union> set excludes\<rparr>\<rparr>)
   \<and> (excludes_too_late (state w) \<longrightarrow> snd (add_exclude_packages excludes w) = w)"
  by (simp add: add_exclude_packages_def find_packages_state)

theorem add_exclude_packages_raises_iff_finalized_witness:
  "\<not> excludes_too_late (state initial_world)
   \<and> fst (add_exclude_packages [''yoda.tests''] initial_world) = Inr ()
   \<and> exclude_packages (state (snd (add_exclude_packages [''yoda.tests''] initial_world)))
       = {''yoda.tests''}
   \<and> excludes_too_late (state (snd (find_packages test_pkg_env ''test_pkg'' [] False initial_world)))
   \<and> fst (add_exclude_packages [''yoda.tests'']
            (snd (find_packages test_pkg_env ''test_pkg'' [] False initial_world)))
       = Inl RuntimeError
   \<and> snd (add_exclude_packages [''yoda.tests'']
            (snd (find_packages test_pkg_env ''test_pkg'' [] False initial_world)))
       = snd (find_packages test_pkg_env ''test_pkg'' [] False initial_world)"
proof -
  have a: "\<not> excludes_too_late (state initial_world)"
    by (simp add: initial_world_def initial_module_state_def)
  have b: "exclude_packages (state initial_world) = {}"
    by (simp add: initial_world_def initial_module_state_def)
  note t1 = add_exclude_packages_raises_iff_finalized
              [of "[''yoda.tests'']" initial_world test_pkg_env "''test_pkg''" "[]" False]
  note t2 = add_exclude_packages_raises_iff_finalized
              [of "[''yoda.tests'']"
                  "snd (find_packages test_pkg_env ''test_pkg'' [] False initial_world)"
                  test_pkg_env "''test_pkg''" "[]" False]
  from t1 a b have c: "fst (add_exclude_packages [''yoda.tests''] initial_world) = Inr ()"
    and d: "exclude_packages (state (snd (add_exclude_packages [''yoda.tests''] initial_world)))
              = {''yoda.tests''}"
    and f: "excludes_too_late
              (state (snd (find_packages test_pkg_env ''test_pkg'' [] False initial_world)))"
    by simp_all
  from t2 f have g: "fst (add_exclude_packages [''yoda.tests'']
            (snd (find_packages test_pkg_env ''test_pkg'' [] False initial_world)))
       = Inl RuntimeError"
    and h: "snd (add_exclude_packages [''yoda.tests'']
            (snd (find_packages test_pkg_env ''test_pkg'' [] False initial_world)))
       = snd (find_packages test_pkg_env ''test_pkg'' [] False initial_world)"
    by simp_all
  from a c d f g h show ?thesis by simp
qed

text \<open>
  Claim C4. \<open>find_packages\<close> memoizes its result. After any call the cache holds the
  list that call returned; a following call with \<open>invalidate_cache=False\<close> returns
  that same list and leaves it in the cache, whatever its \<open>where\<close> and \<open>exclude\<close>
  arguments are (more generally, so does any call that finds the cache filled); a call
  with \<open>invalidate_cache=True\<close> runs the search again and stores its result.
\<close>

theorem find_packages_memoizes:
  "package_cache (state (snd (find_packages e where1 exclude1 invalidate1 w)))
     = Some (fst (find_packages e where1 exclude1 invalidate1 w))
   \<and> fst (find_packages e where2 exclude2 False
            (snd (find_packages e where1 exclude1 invalidate1 w)))
     = fst (find_packages e where1 exclude1 invalidate1 w)
   \<and> package_cache (state (snd (find_packages e where2 exclude2 False
            (snd (find_packages e where1 exclude1 invalidate1 w)))))
     = Some (fst (find_packages e where1 exclude1 invalidate1 w))
   \<and> (package_cache (state w) = Some cached \<longrightarrow>
        fst (find_packages e where2 exclude2 False w) = cached
        \<and> package_cache (state (snd (find_packages e where2 exclude2 False w))) = Some cached)
   \<and> fst (find_packages e where3 exclude3 True w)
     = setuptools_find_packages e where3 (exclude_packages (state w))
   \<and> package_cache (state (snd (find_packages e where3 exclude3 True w)))
     = Some (setuptools_find_packages e where3 (exclude_packages (state w)))"
  by (simp add: find_packages_state find_packages_fst)

theorem find_packages_memoizes_witness:
  "fst (find_packages test_pkg_env ''test_pkg'' [] False initial_world) = [''yoda'', ''yoda.luke'']
   \<and> package_cache (state (snd (find_packages test_pkg_env ''test_pkg'' [] False initial_world)))
       = Some [''yoda'', ''yoda.luke'']
   \<and> fst (find_packages test_pkg_env ''elsewhere'' [''yoda''] False
            (snd (find_packages test_pkg_env ''test_pkg'' [] False initial_world)))
       = [''yoda'', ''yoda.luke'']
   \<and> fst (find_packages test_pkg_env ''elsewhere'' [] True
            (snd (add_exclude_packages [''yoda.luke''] initial_world)))
       = [''yoda'']"
proof -
  have first: "fst (find_packages test_pkg_env ''test_pkg'' [] False initial_world)
                 = [''yoda'', ''yoda.luke'']"
    by (simp add: find_packages_def Let_def initial_world_def initial_module_state_def
          test_pkg_env_def)
  have search: "setuptools_find_packages test_pkg_env ''elsewhere''
                  (exclude_packages (state (snd (add_exclude_packages [''yoda.luke''] initial_world))))
                = [''yoda'']"
    by (simp add: add_exclude_packages_def initial_world_def initial_module_state_def
          test_pkg_env_def)
  note t1 = find_packages_memoizes
              [of test_pkg_env "''test_pkg''" "[]" False initial_world "''elsewhere''" "[''yoda'']"
                  "[''yoda'', ''yoda.luke'']" "''elsewhere''" "[]"]
  note t2 = find_packages_memoizes
              [of test_pkg_env "''test_pkg''" "[]" False
                  "snd (add_exclude_packages [''yoda.luke''] initial_world)"
                  "''elsewhere''" "[]" "[]" "''elsewhere''" "[]"]
  from t1 first t2 search show ?thesis by simp
qed

subsection \<open>The loops as list functions\<close>

lemma enumerate_snoc: "enumerate n (xs @ [x]) = enumerate n xs @ [(n + length xs, x)]"
  by (induction xs arbitrary: n) auto

lemma delete_skip_cython_append:
  "delete_skip_cython (rev (enumerate 0 xs)) (xs @ ys) =
     Inr (filter (\<lambda>x. ext_name x \<noteq> ''skip_cython'') xs @ ys)"
proof (induction xs arbitrary: ys rule: rev_induct)
  case Nil
  show ?case by simp
next
  case (snoc x xs)
  have step: "rev (enumerate 0 (xs @ [x])) = (length xs, x) # rev (enumerate 0 xs)"
    by (simp add: enumerate_snoc)
  show ?case
  proof (cases "ext_name x = ''skip_cython''")
    case True
    then show ?thesis using snoc.IH [of ys] by (simp add: step)
  next
    case False
    then show ?thesis using snoc.IH [of "x # ys"] by (simp add: step)
  qed
qed

lemma delete_skip_cython_filter:
  "delete_skip_cython (rev (enumerate 0 xs)) xs =
     Inr (filter (\<lambda>x. ext_name x \<noteq> ''skip_cython'') xs)"
  using delete_skip_cython_append [of xs "[]"] by simp

lemma add_manifest_map:
  "add_manifest exts = map (\<lambda>ext. ext\<lparr>extra_link_args := extra_link_args ext @ [''/MANIFEST'']\<rparr>) exts"
  by (induction exts) auto

lemma min_len_from_mem: "min_len_from b ps \<in> set (b # ps)"
  by (induction ps arbitrary: b) auto

lemma min_len_from_le_best: "length (min_len_from b ps) \<le> length b"
proof (induction ps arbitrary: b)
  case Nil show ?case by simp
next
  case (Cons p ps)
  show ?case using Cons.IH [of "if length p < length b then p else b"] by auto
qed

lemma min_len_from_least: "q \<in> set (b # ps) \<Longrightarrow> length (min_len_from b ps) \<le> length q"
proof (induction ps arbitrary: b)
  case Nil then show ?case by simp
next
  case (Cons p ps)
  let ?b = "if length p < length b then p else b"
  from Cons.prems consider "q = b" | "q = p" | "q \<in> set ps" by auto
  then show ?case
  proof cases
    case 1
    have "length (min_len_from ?b ps) \<le> length ?b" by (rule min_len_from_le_best)
    then show ?thesis using 1 by auto
  next
    case 2
    have "length (min_len_from ?b ps) \<le> length ?b" by (rule min_len_from_le_best)
    then show ?thesis using 2 by auto
  next
    case 3
    then have "q \<in> set (?b # ps)" by simp
    from Cons.IH [OF this] show ?thesis by simp
  qed
qed

lemma collect_extensions_eq:
  "collect_extensions mods exts pd =
     (exts @ concat (map (\<lambda>m. case get_extensions m of Some xs \<Rightarrow> xs | None \<Rightarrow> []) mods),
      foldl (++) pd (concat (map (\<lambda>m. case get_package_data m of Some d \<Rightarrow> [d] | None \<Rightarrow> []) mods)))"
  by (induction mods arbitrary: exts pd) (auto split: option.splits)

lemma add_pyx_extensions_eq:
  "add_pyx_extensions e prev incl pyxs acc =
     acc @ map (\<lambda>(extmod, pyxfn). Extension extmod [pyxfn] incl)
             (filter (\<lambda>(extmod, pyxfn). realpath e (fst (splitext pyxfn)) \<notin> set prev) pyxs)"
  by (induction pyxs arbitrary: acc) (auto simp: Let_def)

lemma add_package_extensions_eq:
  "add_package_extensions e srcdir prev incl packages acc =
     acc @ concat (map (\<lambda>package_name.
        map (\<lambda>(extmod, pyxfn). Extension extmod [pyxfn] incl)
          (filter (\<lambda>(extmod, pyxfn). realpath e (fst (splitext pyxfn)) \<notin> set prev)
             (iter_pyx_files e (os_path_join srcdir (str_split CHR ''.'' package_name)) package_name)))
        packages)"
  by (induction packages arbitrary: acc) (auto simp: Let_def add_pyx_extensions_eq)

lemma collect_sources_eq:
  "collect_sources e ss acc =
     acc @ map (\<lambda>s. realpath e (fst (splitext s)))
             (filter (\<lambda>s. endswith s ''.pyx'' \<or> endswith s ''.c'' \<or> endswith s ''.cpp'') ss)"
  by (induction ss arbitrary: acc) (auto simp: Let_def)

lemma collect_prevsourcepaths_eq:
  "collect_prevsourcepaths e prev acc =
     acc @ concat (map (\<lambda>ext. map (\<lambda>s. realpath e (fst (splitext s)))
             (filter (\<lambda>s. endswith s ''.pyx'' \<or> endswith s ''.c'' \<or> endswith s ''.cpp'') (sources ext))) prev)"
  by (induction prev arbitrary: acc) (auto simp: collect_sources_eq)

lemma iter_pyx_filenames_eq:
  "iter_pyx_filenames e dirpath package_name filenames =
     map (\<lambda>fn. (package_name @ ''.'' @ take (length fn - 4) fn, relpath e (os_path_join dirpath [fn])))
       (filter (\<lambda>fn. endswith fn ''.pyx'') filenames)"
  by (induction filenames) (auto simp: Let_def)

subsection \<open>The result of \<open>get_package_info\<close>\<close>

lemma get_cython_extensions_no_packages [simp]:
  "get_cython_extensions e srcdir [] prev incl = []"
  by (simp add: get_cython_extensions_def)

lemma kept_extensions_packages:
  "kept_extensions e srcdir packages \<noteq> [] \<Longrightarrow> packages \<noteq> []"
  by (cases packages) auto

lemma length_add_manifest [simp]: "length (add_manifest exts) = length exts"
  by (induction exts) auto

lemma add_manifest_Nil_iff [simp]: "add_manifest exts = [] \<longleftrightarrow> exts = []"
  by (cases exts) auto

lemma get_package_info_eq:
  assumes fp: "find_packages e srcdir exclude False
                 (if exclude \<noteq> [] then warn ExcludeDeprecated w else w) = (packages, w2)"
  shows "get_package_info e srcdir exclude w =
    (let w3 = collect_build_options (iter_setup_packages e srcdir packages) w2;
         package_dir = (if srcdir \<noteq> ''.'' then [[] \<mapsto> srcdir] else Map.empty);
         package_data = foldl (++) (configured_package_data e srcdir)
                          (declared_package_data (iter_setup_packages e srcdir packages))
     in if kept_extensions e srcdir packages = [] then
          (Inr [''ext_modules'' \<mapsto> ExtModules [],
                ''packages'' \<mapsto> Packages packages,
                ''package_dir'' \<mapsto> PackageDir package_dir,
                ''package_data'' \<mapsto> PackageData package_data], w3)
        else
          (case shutil_copy e (os_path_join (helpers_src_path e) [''compiler.c''])
                  (os_path_join srcdir [main_package packages, ''_compiler.c'']) of
             Some err \<Rightarrow> (Inl err, w3)
           | None \<Rightarrow>
               (Inr [''ext_modules'' \<mapsto> ExtModules (built_extensions e srcdir packages @
                        [Extension (main_package packages @ ''.compiler_version'')
                           [os_path_join (main_package packages) [''_compiler.c'']] None]),
                     ''packages'' \<mapsto> Packages packages,
                     ''package_dir'' \<mapsto> PackageDir package_dir,
                     ''package_data'' \<mapsto> PackageData package_data],
                w3\<lparr>copied := copied w3 @
                      [(os_path_join (helpers_src_path e) [''compiler.c''],
                        os_path_join srcdir [main_package packages, ''_compiler.c''])]\<rparr>)))"
proof -
  define mods where "mods = iter_setup_packages e srcdir packages"
  define declared where "declared = declared_extensions mods"
  define discovered where
    "discovered = get_cython_extensions e srcdir packages declared (Some [''numpy''])"
  define kept where "kept = filter (\<lambda>x. ext_name x \<noteq> ''skip_cython'') (declared @ discovered)"
  define pdata where
    "pdata = foldl (++) (configured_package_data e srcdir) (declared_package_data mods)"
  define failure where
    "failure = shutil_copy e (os_path_join (helpers_src_path e) [''compiler.c''])
                 (os_path_join srcdir [main_package packages, ''_compiler.c''])"
  have ce: "collect_extensions mods [] (configured_package_data e srcdir) = (declared, pdata)"
    by (simp add: collect_extensions_eq declared_def pdata_def)
  have del: "delete_skip_cython (rev (enumerate 0 (declared @ discovered))) (declared @ discovered)
               = Inr kept"
    unfolding kept_def by (rule delete_skip_cython_filter)
  have nonempty: "packages \<noteq> []" if "kept \<noteq> []"
    using that kept_extensions_packages [of e srcdir packages]
    unfolding kept_def discovered_def declared_def mods_def by simp
  have m: "min_by_len packages = Inr (main_package packages)"
    if "kept \<noteq> []"
    using nonempty [OF that] by (cases packages) (simp_all add: min_by_len_def)
  show ?thesis
    unfolding get_package_info_def Let_def fp prod.case
      mods_def [symmetric] ce declared_def [symmetric] discovered_def [symmetric] del sum.case
      kept_def [symmetric] pdata_def [symmetric]
    apply (cases "kept = []")
     apply simp
    apply (simp add: m failure_def [symmetric] del: os_path_join.simps)
    done
qed

lemma find_packages_fst_warn:
  "fst (find_packages e where' exclude invalidate_cache (warn msg w)) =
   fst (find_packages e where' exclude invalidate_cache w)"
  by (simp add: find_packages_fst split: option.split)

lemma find_packages_copied [simp]:
  "copied (snd (find_packages e where' exclude invalidate_cache w)) = copied w"
  by (cases "package_cache (state w)") (simp_all add: find_packages_def Let_def)

lemma add_command_option_frame [simp]:
  "state (add_command_option command option w) = state w"
  "copied (add_command_option command option w) = copied w"
  by (simp_all add: add_command_option_def)

lemma add_external_library_loop_frame [simp]:
  "state (add_external_library_loop commands library w) = state w"
  "copied (add_external_library_loop commands library w) = copied w"
  by (induction commands arbitrary: w) simp_all

lemma add_external_library_frame [simp]:
  "state (add_external_library library w) = state w"
  "copied (add_external_library library w) = copied w"
  by (simp_all add: add_external_library_def)

lemma add_build_options_frame [simp]:
  "state (add_build_options options w) = state w"
  "copied (add_build_options options w) = copied w"
  by (induction options arbitrary: w) simp_all

lemma add_external_libraries_frame [simp]:
  "state (add_external_libraries libraries w) = state w"
  "copied (add_external_libraries libraries w) = copied w"
  by (induction libraries arbitrary: w) simp_all

lemma collect_build_options_frame [simp]:
  "state (collect_build_options mods w) = state w"
  "copied (collect_build_options mods w) = copied w"
  by (induction mods arbitrary: w) (simp_all add: Let_def split: option.splits)

lemma ext_name_add_manifest [simp]: "map ext_name (add_manifest exts) = map ext_name exts"
  by (induction exts) auto

lemma set_add_manifest_names:
  "x \<in> set (add_manifest exts) \<Longrightarrow> ext_name x \<in> ext_name ` set exts"
  by (induction exts) auto

lemma foldl_map_add_lookup:
  "foldl (++) base dicts key =
     (case find (\<lambda>d. d key \<noteq> None) (rev dicts) of
        Some d \<Rightarrow> d key
      | None \<Rightarrow> base key)"
proof (induction dicts rule: rev_induct)
  case Nil
  show ?case by simp
next
  case (snoc d dicts)
  show ?case
  proof (cases "d key")
    case None
    then show ?thesis using snoc.IH by (simp add: map_add_def)
  next
    case (Some v)
    then show ?thesis by (simp add: map_add_def)
  qed
qed

lemma find_packages_collapse:
  "find_packages e srcdir exclude False
     (if exclude \<noteq> [] then warn ExcludeDeprecated w else w) =
   (fst (find_packages e srcdir exclude False w),
    snd (find_packages e srcdir exclude False
           (if exclude \<noteq> [] then warn ExcludeDeprecated w else w)))"
proof -
  have "fst (find_packages e srcdir exclude False
               (if exclude \<noteq> [] then warn ExcludeDeprecated w else w)) =
        fst (find_packages e srcdir exclude False w)"
    by (simp add: find_packages_fst_warn)
  then show ?thesis by (metis prod.collapse)
qed

lemma get_package_info_fst:
  "fst (get_package_info e srcdir exclude w) =
     (case compiler_copy_error e srcdir (fst (find_packages e srcdir exclude False w)) of
        Some err \<Rightarrow> Inl err
      | None \<Rightarrow>
          Inr [''ext_modules'' \<mapsto>
                 ExtModules (final_extensions e srcdir (fst (find_packages e srcdir exclude False w))),
               ''packages'' \<mapsto> Packages (fst (find_packages e srcdir exclude False w)),
               ''package_dir'' \<mapsto>
                 PackageDir (if srcdir \<noteq> ''.'' then [[] \<mapsto> srcdir] else Map.empty),
               ''package_data'' \<mapsto>
                 PackageData (foldl (++) (configured_package_data e srcdir)
                   (declared_package_data
                      (iter_setup_packages e srcdir
                         (fst (find_packages e srcdir exclude False w)))))])"
proof -
  define K where "K = kept_extensions e srcdir (fst (find_packages e srcdir exclude False w))"
  define failure where
    "failure = shutil_copy e (os_path_join (helpers_src_path e) [''compiler.c''])
                 (os_path_join srcdir
                    [main_package (fst (find_packages e srcdir exclude False w)), ''_compiler.c''])"
  note eq = get_package_info_eq [OF find_packages_collapse, unfolded Let_def,
                                 folded K_def failure_def]
  show ?thesis
    unfolding eq K_def [symmetric] failure_def [symmetric]
    by (cases "K = []"; cases failure) (simp_all del: os_path_join.simps)
qed

lemma get_package_info_returned:
  assumes "fst (get_package_info e srcdir exclude w) = Inr info"
  shows "info =
          [''ext_modules'' \<mapsto>
             ExtModules (final_extensions e srcdir (fst (find_packages e srcdir exclude False w))),
           ''packages'' \<mapsto> Packages (fst (find_packages e srcdir exclude False w)),
           ''package_dir'' \<mapsto>
             PackageDir (if srcdir \<noteq> ''.'' then [[] \<mapsto> srcdir] else Map.empty),
           ''package_data'' \<mapsto>
             PackageData (foldl (++) (configured_package_data e srcdir)
               (declared_package_data
                  (iter_setup_packages e srcdir
                     (fst (find_packages e srcdir exclude False w)))))]"
    and "compiler_copy_error e srcdir (fst (find_packages e srcdir exclude False w)) = None"
proof -
  define failure where
    "failure = compiler_copy_error e srcdir (fst (find_packages e srcdir exclude False w))"
  define D where "D =
          [''ext_modules'' \<mapsto>
             ExtModules (final_extensions e srcdir (fst (find_packages e srcdir exclude False w))),
           ''packages'' \<mapsto> Packages (fst (find_packages e srcdir exclude False w)),
           ''package_dir'' \<mapsto>
             PackageDir (if srcdir \<noteq> ''.'' then [[] \<mapsto> srcdir] else Map.empty),
           ''package_data'' \<mapsto>
             PackageData (foldl (++) (configured_package_data e srcdir)
               (declared_package_data
                  (iter_setup_packages e srcdir
                     (fst (find_packages e srcdir exclude False w)))))]"
  have eq: "fst (get_package_info e srcdir exclude w) =
              (case failure of Some err \<Rightarrow> Inl err | None \<Rightarrow> Inr D)"
    unfolding failure_def D_def by (rule get_package_info_fst)
  from assms eq have both: "failure = None \<and> info = D"
    by (cases failure) simp_all
  from both show "info = D" by simp
  from both show "failure = None" by simp
qed

lemma get_package_info_snd:
  "snd (get_package_info e srcdir exclude w) =
     (let packages = fst (find_packages e srcdir exclude False w);
          w2 = snd (find_packages e srcdir exclude False
                      (if exclude \<noteq> [] then warn ExcludeDeprecated w else w));
          w3 = collect_build_options (iter_setup_packages e srcdir packages) w2
      in if kept_extensions e srcdir packages = []
            \<or> compiler_copy_error e srcdir packages \<noteq> None then w3
         else w3\<lparr>copied := copied w3 @
                [(os_path_join (helpers_src_path e) [''compiler.c''],
                  os_path_join srcdir [main_package packages, ''_compiler.c''])]\<rparr>)"
proof -
  define K where "K = kept_extensions e srcdir (fst (find_packages e srcdir exclude False w))"
  define failure where
    "failure = shutil_copy e (os_path_join (helpers_src_path e) [''compiler.c''])
                 (os_path_join srcdir
                    [main_package (fst (find_packages e srcdir exclude False w)), ''_compiler.c''])"
  note eq = get_package_info_eq [OF find_packages_collapse, unfolded Let_def,
                                 folded K_def failure_def]
  show ?thesis
    unfolding eq Let_def K_def [symmetric] failure_def [symmetric]
    by (cases "K = []"; cases failure) (simp_all del: os_path_join.simps)
qed

lemma get_package_info_state:
  "state (snd (get_package_info e srcdir exclude w)) =
   state (snd (find_packages e srcdir exclude False w))"
proof -
  define K where "K = kept_extensions e srcdir (fst (find_packages e srcdir exclude False w))"
  define failure where
    "failure = shutil_copy e (os_path_join (helpers_src_path e) [''compiler.c''])
                 (os_path_join srcdir
                    [main_package (fst (find_packages e srcdir exclude False w)), ''_compiler.c''])"
  note eq = get_package_info_snd [of e srcdir exclude w, unfolded Let_def,
                                  folded K_def failure_def]
  show ?thesis
    unfolding eq K_def [symmetric] failure_def [symmetric]
    by (cases "K = []"; cases failure)
       (simp_all add: find_packages_state find_packages_fst_warn del: os_path_join.simps)
qed

subsection \<open>The dictionary returned by \<open>get_package_info\<close>\<close>

lemma package_info_dict:
  "dom [''ext_modules'' \<mapsto> a, ''packages'' \<mapsto> b, ''package_dir'' \<mapsto> c, ''package_data'' \<mapsto> d]
     = {''ext_modules'', ''packages'', ''package_dir'', ''package_data''}"
  "[''ext_modules'' \<mapsto> a, ''packages'' \<mapsto> b, ''package_dir'' \<mapsto> c, ''package_data'' \<mapsto> d]
     ''ext_modules'' = Some a"
  "[''ext_modules'' \<mapsto> a, ''packages'' \<mapsto> b, ''package_dir'' \<mapsto> c, ''package_data'' \<mapsto> d]
     ''packages'' = Some b"
  "[''ext_modules'' \<mapsto> a, ''packages'' \<mapsto> b, ''package_dir'' \<mapsto> c, ''package_data'' \<mapsto> d]
     ''package_dir'' = Some c"
  "[''ext_modules'' \<mapsto> a, ''packages'' \<mapsto> b, ''package_dir'' \<mapsto> c, ''package_data'' \<mapsto> d]
     ''package_data'' = Some d"
  by auto

lemma compiler_version_not_skip_cython: "p @ ''.compiler_version'' \<noteq> ''skip_cython''"
proof
  assume "p @ ''.compiler_version'' = ''skip_cython''"
  then have "length (p @ ''.compiler_version'') = length ''skip_cython''" by (rule arg_cong)
  then show False by simp
qed

lemma built_names:
  assumes "x \<in> set (if c then add_manifest (filter (\<lambda>x. ext_name x \<noteq> ''skip_cython'') exts)
                     else filter (\<lambda>x. ext_name x \<noteq> ''skip_cython'') exts)"
  shows "ext_name x \<noteq> ''skip_cython''"
proof (cases c)
  case True
  with assms have "x \<in> set (add_manifest (filter (\<lambda>x. ext_name x \<noteq> ''skip_cython'') exts))"
    by simp
  then have "ext_name x \<in> ext_name ` set (filter (\<lambda>x. ext_name x \<noteq> ''skip_cython'') exts)"
    by (rule set_add_manifest_names)
  then show ?thesis by auto
next
  case False
  with assms show ?thesis by simp
qed

lemma min_len_from_hd_tl:
  assumes "packages \<noteq> []"
  shows "main_package packages \<in> set packages"
    and "\<forall>q \<in> set packages. length (main_package packages) \<le> length q"
proof -
  from assms obtain p ps where ps: "packages = p # ps" by (cases packages) auto
  show "main_package packages \<in> set packages"
    using min_len_from_mem [of p ps] by (simp add: ps)
  show "\<forall>q \<in> set packages. length (main_package packages) \<le> length q"
    using min_len_from_least [of _ p ps] by (simp add: ps)
qed

lemma get_package_info_copied:
  "copied (snd (get_package_info e srcdir exclude w)) =
     (if kept_extensions e srcdir (fst (find_packages e srcdir exclude False w)) = []
         \<or> compiler_copy_error e srcdir (fst (find_packages e srcdir exclude False w)) \<noteq> None
      then copied w
      else copied w @
             [(os_path_join (helpers_src_path e) [''compiler.c''],
               os_path_join srcdir
                 [main_package (fst (find_packages e srcdir exclude False w)), ''_compiler.c''])])"
proof -
  define K where "K = kept_extensions e srcdir (fst (find_packages e srcdir exclude False w))"
  define failure where
    "failure = shutil_copy e (os_path_join (helpers_src_path e) [''compiler.c''])
                 (os_path_join srcdir
                    [main_package (fst (find_packages e srcdir exclude False w)), ''_compiler.c''])"
  note eq = get_package_info_snd [of e srcdir exclude w, unfolded Let_def,
                                  folded K_def failure_def]
  show ?thesis
    unfolding eq K_def [symmetric] failure_def [symmetric]
    by (cases "K = []"; cases failure) (simp_all del: os_path_join.simps)
qed

subsection \<open>The concrete source tree, evaluated\<close>

lemma test_pkg_packages:
  "fst (find_packages test_pkg_env ''test_pkg'' [] False initial_world) = [''yoda'', ''yoda.luke'']"
  by (simp add: find_packages_def Let_def initial_world_def initial_module_state_def
        test_pkg_env_def)

lemma test_pkg_declares_skip_cython:
  "Extension ''skip_cython'' [] None \<in>
     set (declared_extensions
            (iter_setup_packages test_pkg_env ''test_pkg'' [''yoda'', ''yoda.luke'']))"
  by code_simp

lemma test_pkg_kept:
  "kept_extensions test_pkg_env ''test_pkg'' [''yoda'', ''yoda.luke''] =
     [Extension ''yoda.unit01'' [''test_pkg/yoda/unit01.c''] None,
      Extension ''yoda.luke.dagobah'' [''test_pkg/yoda/luke/dagobah.pyx''] (Some [''numpy''])]"
  by code_simp

lemma test_pkg_built:
  "(if get_compiler_option test_pkg_env = ''msvc'' then add_manifest exts else exts) = exts"
  by (simp add: test_pkg_env_def)

lemma test_pkg_package_data:
  "foldl (++) (configured_package_data test_pkg_env ''test_pkg'')
     (declared_package_data (iter_setup_packages test_pkg_env ''test_pkg'' [''yoda'', ''yoda.luke'']))
     ''yoda'' = Some [''data/*'']"
  "foldl (++) (configured_package_data test_pkg_env ''test_pkg'')
     (declared_package_data (iter_setup_packages test_pkg_env ''test_pkg'' [''yoda'', ''yoda.luke'']))
     ''*'' = Some [''*.rst'']"
  by code_simp code_simp

lemma test_pkg_copy_succeeds:
  "compiler_copy_error test_pkg_env ''test_pkg'' [''yoda'', ''yoda.luke''] = None"
  by code_simp

lemma test_pkg_returns:
  "\<exists>info. fst (get_package_info test_pkg_env ''test_pkg'' [] initial_world) = Inr info"
  using get_package_info_fst [of test_pkg_env "''test_pkg''" "[]" initial_world]
  unfolding test_pkg_packages test_pkg_copy_succeeds option.case
  by (intro exI)

text \<open>
  Claim C1. The dictionary that \<open>get_package_info\<close> returns for a source directory has
  exactly the four keys \<open>ext_modules\<close>, \<open>packages\<close>, \<open>package_dir\<close> and
  \<open>package_data\<close>; \<open>packages\<close> is the list that the call of \<open>find_packages\<close> on that
  directory returns, and \<open>package_dir\<close> maps the empty string to \<open>srcdir\<close> when
  \<open>srcdir\<close> is not \<open>.\<close> and is empty otherwise.
\<close>

theorem get_package_info_keys:
  assumes "fst (get_package_info e srcdir exclude w) = Inr info"
  shows "dom info = {''ext_modules'', ''packages'', ''package_dir'', ''package_data''}
     \<and> info ''packages'' = Some (Packages (fst (find_packages e srcdir exclude False w)))
     \<and> info ''package_dir'' =
         Some (PackageDir (if srcdir = ''.'' then Map.empty else [[] \<mapsto> srcdir]))"
proof -
  have dir: "(if srcdir \<noteq> ''.'' then [[] \<mapsto> srcdir] else Map.empty)
             = (if srcdir = ''.'' then Map.empty else [[] \<mapsto> srcdir])"
    by simp
  show ?thesis
    unfolding get_package_info_returned(1) [OF assms] package_info_dict dir
    by (intro conjI refl)
qed

theorem get_package_info_keys_witness:
  "\<exists>info. fst (get_package_info test_pkg_env ''test_pkg'' [] initial_world) = Inr info
     \<and> dom info = {''ext_modules'', ''packages'', ''package_dir'', ''package_data''}
     \<and> info ''packages'' = Some (Packages [''yoda'', ''yoda.luke''])
     \<and> info ''package_dir'' = Some (PackageDir [[] \<mapsto> ''test_pkg''])"
proof -
  from test_pkg_returns obtain info where
    r: "fst (get_package_info test_pkg_env ''test_pkg'' [] initial_world) = Inr info"
    by (elim exE) (rule that)
  have dir: "(if ''test_pkg'' = ''.'' then Map.empty else [[] \<mapsto> ''test_pkg''])
             = [[] \<mapsto> ''test_pkg'']"
    by simp
  note t = get_package_info_keys [OF r, unfolded test_pkg_packages dir]
  from r t have "fst (get_package_info test_pkg_env ''test_pkg'' [] initial_world) = Inr info
     \<and> dom info = {''ext_modules'', ''packages'', ''package_dir'', ''package_data''}
     \<and> info ''packages'' = Some (Packages [''yoda'', ''yoda.luke''])
     \<and> info ''package_dir'' = Some (PackageDir [[] \<mapsto> ''test_pkg''])"
    by (intro conjI) (elim conjE, assumption)+
  then show ?thesis by (intro exI)
qed

text \<open>
  Claim C7. The \<open>package_data\<close> entry of the returned dictionary is the package data
  of \<open>setup.cfg\<close> (empty when the file, its \<open>options\<close> section or the \<open>package_data\<close>
  option is absent), updated with the dictionary of each setup module that has
  \<open>get_package_data\<close>, in the order of the modules. So the value at a key is that of
  the last module which has the key, and that of \<open>setup.cfg\<close> when no module has it.
\<close>

theorem get_package_info_package_data:
  assumes "fst (get_package_info e srcdir exclude w) = Inr info"
  shows "\<exists>pd. info ''package_data'' = Some (PackageData pd)
     \<and> pd = foldl (++) (configured_package_data e srcdir)
              (declared_package_data
                 (iter_setup_packages e srcdir (fst (find_packages e srcdir exclude False w))))
     \<and> (\<forall>key. pd key =
           (case find (\<lambda>d. d key \<noteq> None)
                   (rev (declared_package_data
                      (iter_setup_packages e srcdir
                         (fst (find_packages e srcdir exclude False w))))) of
              Some d \<Rightarrow> d key
            | None \<Rightarrow> configured_package_data e srcdir key))"
proof -
  define packages where "packages = fst (find_packages e srcdir exclude False w)"
  define dicts where "dicts = declared_package_data (iter_setup_packages e srcdir packages)"
  define base where "base = configured_package_data e srcdir"
  define pd where "pd = foldl (++) base dicts"
  have lookup: "\<forall>key. pd key = (case find (\<lambda>d. d key \<noteq> None) (rev dicts) of
                                   Some d \<Rightarrow> d key | None \<Rightarrow> base key)"
    unfolding pd_def by (intro allI) (rule foldl_map_add_lookup)
  have res: "info =
         [''ext_modules'' \<mapsto> ExtModules (final_extensions e srcdir packages),
          ''packages'' \<mapsto> Packages packages,
          ''package_dir'' \<mapsto>
            PackageDir (if srcdir \<noteq> ''.'' then [[] \<mapsto> srcdir] else Map.empty),
          ''package_data'' \<mapsto> PackageData pd]"
    unfolding packages_def pd_def base_def dicts_def
    by (rule get_package_info_returned(1) [OF assms])
  have entry: "info ''package_data'' = Some (PackageData pd)"
    unfolding res by (rule package_info_dict)
  have "info ''package_data'' = Some (PackageData pd)
     \<and> pd = foldl (++) base dicts
     \<and> (\<forall>key. pd key = (case find (\<lambda>d. d key \<noteq> None) (rev dicts) of
                             Some d \<Rightarrow> d key | None \<Rightarrow> base key))"
    using entry pd_def lookup by (intro conjI)
  then have "\<exists>pd. info ''package_data'' = Some (PackageData pd)
     \<and> pd = foldl (++) base dicts
     \<and> (\<forall>key. pd key = (case find (\<lambda>d. d key \<noteq> None) (rev dicts) of
                             Some d \<Rightarrow> d key | None \<Rightarrow> base key))"
    by (intro exI)
  then show ?thesis
    unfolding base_def dicts_def packages_def .
qed

theorem get_package_info_package_data_witness:
  "\<exists>info pd. fst (get_package_info test_pkg_env ''test_pkg'' [] initial_world) = Inr info
     \<and> info ''package_data'' = Some (PackageData pd)
     \<and> pd ''yoda'' = Some [''data/*'']
     \<and> pd ''*'' = Some [''*.rst'']"
proof -
  from test_pkg_returns obtain info where
    r: "fst (get_package_info test_pkg_env ''test_pkg'' [] initial_world) = Inr info"
    by (elim exE) (rule that)
  from get_package_info_package_data [OF r]
  obtain pd where
    i: "info ''package_data'' = Some (PackageData pd)" and
    p: "pd = foldl (++) (configured_package_data test_pkg_env ''test_pkg'')
              (declared_package_data
                 (iter_setup_packages test_pkg_env ''test_pkg''
                    (fst (find_packages test_pkg_env ''test_pkg'' [] False initial_world))))"
    by (elim exE conjE) (rule that)
  have y: "pd ''yoda'' = Some [''data/*'']"
    unfolding p test_pkg_packages by (rule test_pkg_package_data)
  have s: "pd ''*'' = Some [''*.rst'']"
    unfolding p test_pkg_packages by (rule test_pkg_package_data)
  from r i y s have "fst (get_package_info test_pkg_env ''test_pkg'' [] initial_world) = Inr info
     \<and> info ''package_data'' = Some (PackageData pd)
     \<and> pd ''yoda'' = Some [''data/*'']
     \<and> pd ''*'' = Some [''*.rst'']"
    by (intro conjI)
  then show ?thesis by (intro exI)
qed

text \<open>
  Claim C9. The \<open>ext_modules\<close> list of the returned dictionary never holds an
  extension named \<open>skip_cython\<close>. It is the list of the declared extensions followed
  by the discovered ones, without those named \<open>skip_cython\<close> and otherwise in the same
  order (with the linker argument added under a Microsoft compiler), followed by at
  most one more extension.
\<close>

theorem get_package_info_no_skip_cython:
  assumes "fst (get_package_info e srcdir exclude w) = Inr info"
  shows "\<exists>exts tail.
     info ''ext_modules'' = Some (ExtModules exts)
     \<and> (\<forall>x \<in> set exts. ext_name x \<noteq> ''skip_cython'')
     \<and> exts = built_extensions e srcdir (fst (find_packages e srcdir exclude False w)) @ tail
     \<and> length tail \<le> 1
     \<and> map ext_name (built_extensions e srcdir (fst (find_packages e srcdir exclude False w)))
         = filter (\<lambda>n. n \<noteq> ''skip_cython'')
             (map ext_name
                (declared_extensions
                   (iter_setup_packages e srcdir (fst (find_packages e srcdir exclude False w))) @
                 get_cython_extensions e srcdir (fst (find_packages e srcdir exclude False w))
                   (declared_extensions
                      (iter_setup_packages e srcdir
                         (fst (find_packages e srcdir exclude False w))))
                   (Some [''numpy''])))"
proof -
  define packages where "packages = fst (find_packages e srcdir exclude False w)"
  define collected where
    "collected = declared_extensions (iter_setup_packages e srcdir packages) @
                 get_cython_extensions e srcdir packages
                   (declared_extensions (iter_setup_packages e srcdir packages)) (Some [''numpy''])"
  define kept where "kept = filter (\<lambda>x. ext_name x \<noteq> ''skip_cython'') collected"
  define built where "built = (if get_compiler_option e = ''msvc'' then add_manifest kept else kept)"
  define main where "main = main_package packages"
  define tail where
    "tail = (if kept = [] then []
             else [Extension (main @ ''.compiler_version'') [os_path_join main [''_compiler.c'']] None])"
  define pd where "pd = foldl (++) (configured_package_data e srcdir)
              (declared_package_data (iter_setup_packages e srcdir packages))"
  have built_nil: "built = []" if "kept = []"
    using that by (simp add: built_def)
  have final: "final_extensions e srcdir packages = built @ tail"
    unfolding collected_def [symmetric] kept_def [symmetric] built_def [symmetric]
      main_def [symmetric] tail_def
    by (simp add: built_nil del: os_path_join.simps)
  have names_built: "\<forall>x \<in> set built. ext_name x \<noteq> ''skip_cython''"
    unfolding built_def kept_def using built_names by blast
  have names_tail: "\<forall>x \<in> set tail. ext_name x \<noteq> ''skip_cython''"
    by (simp add: tail_def Extension_def compiler_version_not_skip_cython
          del: os_path_join.simps)
  have names: "\<forall>x \<in> set (built @ tail). ext_name x \<noteq> ''skip_cython''"
    using names_built names_tail by auto
  have len: "length tail \<le> 1"
    by (simp add: tail_def)
  have order: "map ext_name built = filter (\<lambda>n. n \<noteq> ''skip_cython'') (map ext_name collected)"
    by (simp add: built_def kept_def filter_map comp_def)
  have res: "info =
         [''ext_modules'' \<mapsto> ExtModules (built @ tail),
          ''packages'' \<mapsto> Packages packages,
          ''package_dir'' \<mapsto>
            PackageDir (if srcdir \<noteq> ''.'' then [[] \<mapsto> srcdir] else Map.empty),
          ''package_data'' \<mapsto> PackageData pd]"
    unfolding final [symmetric] packages_def pd_def
    by (rule get_package_info_returned(1) [OF assms])
  have entry: "info ''ext_modules'' = Some (ExtModules (built @ tail))"
    unfolding res by (rule package_info_dict)
  have "info ''ext_modules'' = Some (ExtModules (built @ tail))
     \<and> (\<forall>x \<in> set (built @ tail). ext_name x \<noteq> ''skip_cython'')
     \<and> built @ tail = built @ tail
     \<and> length tail \<le> 1
     \<and> map ext_name built = filter (\<lambda>n. n \<noteq> ''skip_cython'') (map ext_name collected)"
    using entry names len order by (intro conjI refl)
  then have "\<exists>exts tail.
     info ''ext_modules'' = Some (ExtModules exts)
     \<and> (\<forall>x \<in> set exts. ext_name x \<noteq> ''skip_cython'')
     \<and> exts = built @ tail
     \<and> length tail \<le> 1
     \<and> map ext_name built = filter (\<lambda>n. n \<noteq> ''skip_cython'') (map ext_name collected)"
    by (intro exI)
  then show ?thesis
    unfolding built_def kept_def collected_def packages_def .
qed

theorem get_package_info_no_skip_cython_witness:
  "Extension ''skip_cython'' [] None \<in>
     set (declared_extensions
            (iter_setup_packages test_pkg_env ''test_pkg'' [''yoda'', ''yoda.luke'']))
   \<and> (\<exists>info exts tail.
       fst (get_package_info test_pkg_env ''test_pkg'' [] initial_world) = Inr info
       \<and> info ''ext_modules'' = Some (ExtModules exts)
       \<and> (\<forall>x \<in> set exts. ext_name x \<noteq> ''skip_cython'')
       \<and> exts = [Extension ''yoda.unit01'' [''test_pkg/yoda/unit01.c''] None,
                 Extension ''yoda.luke.dagobah'' [''test_pkg/yoda/luke/dagobah.pyx'']
                   (Some [''numpy''])] @ tail
       \<and> length tail \<le> 1)"
proof -
  from test_pkg_returns obtain info where
    r: "fst (get_package_info test_pkg_env ''test_pkg'' [] initial_world) = Inr info"
    by (elim exE) (rule that)
  from get_package_info_no_skip_cython [OF r]
  obtain exts tail where
    i: "info ''ext_modules'' = Some (ExtModules exts)" and
    n: "\<forall>x \<in> set exts. ext_name x \<noteq> ''skip_cython''" and
    x: "exts = built_extensions test_pkg_env ''test_pkg''
                 (fst (find_packages test_pkg_env ''test_pkg'' [] False initial_world)) @ tail" and
    l: "length tail \<le> 1"
    by (elim exE conjE) (rule that)
  have x': "exts = [Extension ''yoda.unit01'' [''test_pkg/yoda/unit01.c''] None,
                 Extension ''yoda.luke.dagobah'' [''test_pkg/yoda/luke/dagobah.pyx'']
                   (Some [''numpy''])] @ tail"
    using x unfolding test_pkg_packages test_pkg_kept test_pkg_built .
  from r i n x' l have "fst (get_package_info test_pkg_env ''test_pkg'' [] initial_world) = Inr info
       \<and> info ''ext_modules'' = Some (ExtModules exts)
       \<and> (\<forall>x \<in> set exts. ext_name x \<noteq> ''skip_cython'')
       \<and> exts = [Extension ''yoda.unit01'' [''test_pkg/yoda/unit01.c''] None,
                 Extension ''yoda.luke.dagobah'' [''test_pkg/yoda/luke/dagobah.pyx'']
                   (Some [''numpy''])] @ tail
       \<and> length tail \<le> 1"
    by (intro conjI)
  then have "\<exists>info exts tail.
       fst (get_package_info test_pkg_env ''test_pkg'' [] initial_world) = Inr info
       \<and> info ''ext_modules'' = Some (ExtModules exts)
       \<and> (\<forall>x \<in> set exts. ext_name x \<noteq> ''skip_cython'')
       \<and> exts = [Extension ''yoda.unit01'' [''test_pkg/yoda/unit01.c''] None,
                 Extension ''yoda.luke.dagobah'' [''test_pkg/yoda/luke/dagobah.pyx'']
                   (Some [''numpy''])] @ tail
       \<and> length tail \<le> 1"
    by (intro exI)
  with test_pkg_declares_skip_cython show ?thesis by (intro conjI)
qed

subsection \<open>The compiler-version extension\<close>

text \<open>
  When \<open>get_package_info\<close> returns, the list of extensions is as the dictionary says:
  empty with nothing copied when no extension is kept, and otherwise the kept
  extensions followed by the one extension \<open>p.compiler_version\<close> of the main package
  \<open>p\<close>, with \<open>compiler.c\<close> copied to \<open>_compiler.c\<close> under \<open>srcdir\<close> joined with \<open>p\<close>.
\<close>

lemma compiler_version_when_returned:
  assumes "fst (get_package_info e srcdir exclude w) = Inr info"
  shows "info ''ext_modules'' =
           Some (ExtModules (final_extensions e srcdir (fst (find_packages e srcdir exclude False w))))"
    and "copied (snd (get_package_info e srcdir exclude w)) =
           (if kept_extensions e srcdir (fst (find_packages e srcdir exclude False w)) = []
            then copied w
            else copied w @
                   [(os_path_join (helpers_src_path e) [''compiler.c''],
                     os_path_join srcdir
                       [main_package (fst (find_packages e srcdir exclude False w)),
                        ''_compiler.c''])])"
    and "kept_extensions e srcdir (fst (find_packages e srcdir exclude False w)) \<noteq> []
         \<Longrightarrow> main_package (fst (find_packages e srcdir exclude False w))
               \<in> set (fst (find_packages e srcdir exclude False w))
             \<and> (\<forall>q \<in> set (fst (find_packages e srcdir exclude False w)).
                   length (main_package (fst (find_packages e srcdir exclude False w)))
                   \<le> length q)"
proof -
  show "info ''ext_modules'' =
           Some (ExtModules (final_extensions e srcdir (fst (find_packages e srcdir exclude False w))))"
    unfolding get_package_info_returned(1) [OF assms] by (rule package_info_dict)
  show "copied (snd (get_package_info e srcdir exclude w)) =
           (if kept_extensions e srcdir (fst (find_packages e srcdir exclude False w)) = []
            then copied w
            else copied w @
                   [(os_path_join (helpers_src_path e) [''compiler.c''],
                     os_path_join srcdir
                       [main_package (fst (find_packages e srcdir exclude False w)),
                        ''_compiler.c''])])"
    unfolding get_package_info_copied get_package_info_returned(2) [OF assms]
    by (simp del: os_path_join.simps)
  assume "kept_extensions e srcdir (fst (find_packages e srcdir exclude False w)) \<noteq> []"
  then have "fst (find_packages e srcdir exclude False w) \<noteq> []"
    by (rule kept_extensions_packages)
  then show "main_package (fst (find_packages e srcdir exclude False w))
               \<in> set (fst (find_packages e srcdir exclude False w))
             \<and> (\<forall>q \<in> set (fst (find_packages e srcdir exclude False w)).
                   length (main_package (fst (find_packages e srcdir exclude False w)))
                   \<le> length q)"
    using min_len_from_hd_tl by blast
qed

lemma test_pkg_without_yoda:
  "fst (find_packages test_pkg_env ''test_pkg'' [] False
          (snd (add_exclude_packages [''yoda''] initial_world))) = [''yoda.luke'']"
  by (simp add: find_packages_def Let_def add_exclude_packages_def initial_world_def
        initial_module_state_def test_pkg_env_def)

lemma test_pkg_without_yoda_kept:
  "map ext_name (kept_extensions test_pkg_env ''test_pkg'' [''yoda.luke''])
     = [''yoda.luke.dagobah'']"
  by code_simp

lemma test_pkg_without_yoda_copy:
  "compiler_copy_error test_pkg_env ''test_pkg'' [''yoda.luke''] = Some FileNotFoundError"
  by code_simp

lemma test_pkg_without_yoda_paths:
  "os_path_join ''test_pkg'' (str_split CHR ''.'' ''yoda.luke'') = ''test_pkg/yoda/luke''"
  "os_path_join ''test_pkg'' [main_package [''yoda.luke''], ''_compiler.c'']
     = ''test_pkg/yoda.luke/_compiler.c''"
  by code_simp code_simp

text \<open>
  Claim C10. The claim is that a non-empty list of kept extensions always gets the one
  extension \<open>p.compiler_version\<close> of a package \<open>p\<close> of least length. The code joins
  the dotted package name itself into the destination of the file copy, where
  \<open>iter_setup_packages\<close> and \<open>get_cython_extensions\<close> split the name at its dots to get
  the package directory. With \<open>yoda\<close> excluded the only package is \<open>yoda.luke\<close>, whose
  directory is \<open>test_pkg/yoda/luke\<close>; the copy goes to
  \<open>test_pkg/yoda.luke/_compiler.c\<close>, a directory that does not exist, and
  \<open>get_package_info\<close> raises instead of returning: no extension is appended and no
  file is copied although an extension was kept.
\<close>

theorem get_package_info_dotted_main_package_raises:
  "fst (find_packages test_pkg_env ''test_pkg'' [] False
          (snd (add_exclude_packages [''yoda''] initial_world))) = [''yoda.luke'']
   \<and> map ext_name (kept_extensions test_pkg_env ''test_pkg'' [''yoda.luke''])
       = [''yoda.luke.dagobah'']
   \<and> os_path_join ''test_pkg'' (str_split CHR ''.'' ''yoda.luke'') = ''test_pkg/yoda/luke''
   \<and> os_path_join ''test_pkg'' [main_package [''yoda.luke''], ''_compiler.c'']
       = ''test_pkg/yoda.luke/_compiler.c''
   \<and> fst (get_package_info test_pkg_env ''test_pkg'' []
            (snd (add_exclude_packages [''yoda''] initial_world))) = Inl FileNotFoundError
   \<and> copied (snd (get_package_info test_pkg_env ''test_pkg'' []
                    (snd (add_exclude_packages [''yoda''] initial_world)))) = []"
proof -
  have raised: "fst (get_package_info test_pkg_env ''test_pkg'' []
            (snd (add_exclude_packages [''yoda''] initial_world))) = Inl FileNotFoundError"
    unfolding get_package_info_fst test_pkg_without_yoda test_pkg_without_yoda_copy option.case
    by (rule refl)
  have start: "copied (snd (add_exclude_packages [''yoda''] initial_world)) = []"
    by (simp add: add_exclude_packages_def initial_world_def)
  have no_copy: "copied (snd (get_package_info test_pkg_env ''test_pkg'' []
                    (snd (add_exclude_packages [''yoda''] initial_world)))) = []"
    unfolding get_package_info_copied test_pkg_without_yoda test_pkg_without_yoda_copy start
    by simp
  from test_pkg_without_yoda test_pkg_without_yoda_kept test_pkg_without_yoda_paths
    raised no_copy
  show ?thesis by (intro conjI)
qed

subsection \<open>Cython discovery\<close>

lemma set_collect_prevsourcepaths:
  "p \<in> set (collect_prevsourcepaths e prevextensions []) \<longleftrightarrow>
     (\<exists>prev \<in> set prevextensions. \<exists>s \<in> set (sources prev).
        (endswith s ''.pyx'' \<or> endswith s ''.c'' \<or> endswith s ''.cpp'')
        \<and> realpath e (fst (splitext s)) = p)"
  by (auto simp: collect_prevsourcepaths_eq)

lemma iter_pyx_files_eq:
  "iter_pyx_files e package_dir package_name =
     (case os_walk e package_dir of
        [] \<Rightarrow> []
      | (dirpath, dirnames, filenames) # deeper \<Rightarrow>
          map (\<lambda>fn. (package_name @ ''.'' @ take (length fn - 4) fn,
                     relpath e (os_path_join dirpath [fn])))
            (filter (\<lambda>fn. \<not> is_path_hidden e fn \<and> endswith fn ''.pyx'') filenames))"
proof (cases "os_walk e package_dir")
  case Nil
  then show ?thesis by (simp add: iter_pyx_files_def walk_skip_hidden_def)
next
  case (Cons first deeper)
  obtain dirpath dirnames filenames where first: "first = (dirpath, dirnames, filenames)"
    by (cases first)
  show ?thesis
    unfolding iter_pyx_files_def walk_skip_hidden_def Cons first
    by (simp add: iter_pyx_filenames_eq del: os_path_join.simps)
qed

lemma map_filter_map_filter:
  "map f (filter P (map g (filter Q xs))) = map (\<lambda>x. f (g x)) (filter (\<lambda>x. Q x \<and> P (g x)) xs)"
  by (induction xs) auto

lemma endswith_strip:
  assumes "endswith fn suffix"
  shows "take (length fn - length suffix) fn @ suffix = fn"
proof -
  from assms have "drop (length fn - length suffix) fn = suffix"
    by (simp add: endswith_def)
  then have "take (length fn - length suffix) fn @ suffix
             = take (length fn - length suffix) fn @ drop (length fn - length suffix) fn"
    by simp
  then show ?thesis by simp
qed

lemma test_pkg_discovery_rhs:
  "concat (map (\<lambda>package_name.
       case os_walk test_pkg_env
              (os_path_join ''test_pkg'' (str_split CHR ''.'' package_name)) of
         [] \<Rightarrow> []
       | (dirpath, dirnames, filenames) # deeper \<Rightarrow>
           map (\<lambda>fn. Extension (package_name @ ''.'' @ take (length fn - 4) fn)
                       [relpath test_pkg_env (os_path_join dirpath [fn])] (Some [''numpy'']))
             (filter (\<lambda>fn. \<not> is_path_hidden test_pkg_env fn \<and> endswith fn ''.pyx''
                         \<and> \<not> already_declared test_pkg_env
                               [Extension ''yoda.unit01'' [''test_pkg/yoda/unit01.c''] None]
                               (relpath test_pkg_env (os_path_join dirpath [fn])))
                filenames))
       [''yoda'', ''yoda.luke''])
   = [Extension ''yoda.luke.dagobah'' [''test_pkg/yoda/luke/dagobah.pyx''] (Some [''numpy''])]"
  by code_simp

lemma test_pkg_discovery_facts:
  "endswith ''dagobah.pyx'' ''.pyx''"
  "endswith ''test_pkg/yoda/unit01.c'' ''.c''"
  "Extension ''yoda.luke.dagobah'' [''test_pkg/yoda/luke/dagobah.pyx''] (Some [''numpy''])
     \<in> set (get_cython_extensions test_pkg_env ''test_pkg'' [''yoda'', ''yoda.luke'']
              [Extension ''yoda.unit01'' [''test_pkg/yoda/unit01.c''] None] (Some [''numpy'']))"
  by code_simp+

lemma test_pkg_declared_source_is_skipped:
  "get_cython_extensions test_pkg_env ''test_pkg'' [''yoda'', ''yoda.luke'']
     [Extension ''yoda.luke.dagobah'' [''test_pkg/yoda/luke/dagobah.c''] None] (Some [''numpy''])
   = []"
  by code_simp

text \<open>
  Claim C3, as the code has it. \<open>get_cython_extensions\<close> returns, package by package in
  the order of the package list, one extension for each file name of the package's own
  directory (the first triple of the walk; deeper directories are not looked at) that
  is not hidden, ends in \<open>.pyx\<close> and is not already declared. Its module name is the
  package name, a dot and the file name without its last four characters, which for
  such a file is the file name with \<open>.pyx\<close> stripped; its only source is the path of
  the file; its \<open>include_dirs\<close> is the list \<open>extincludedirs\<close>, and the empty list when
  \<open>extincludedirs\<close> is \<open>None\<close>.
\<close>

theorem get_cython_extensions_discovery:
  "get_cython_extensions e srcdir packages prevextensions extincludedirs =
     concat (map (\<lambda>package_name.
       case os_walk e (os_path_join srcdir (str_split CHR ''.'' package_name)) of
         [] \<Rightarrow> []
       | (dirpath, dirnames, filenames) # deeper \<Rightarrow>
           map (\<lambda>fn. Extension (package_name @ ''.'' @ take (length fn - 4) fn)
                       [relpath e (os_path_join dirpath [fn])] extincludedirs)
             (filter (\<lambda>fn. \<not> is_path_hidden e fn \<and> endswith fn ''.pyx''
                         \<and> \<not> already_declared e prevextensions
                               (relpath e (os_path_join dirpath [fn])))
                filenames))
       packages)
   \<and> (\<forall>fn. endswith fn ''.pyx'' \<longrightarrow> take (length fn - 4) fn @ ''.pyx'' = fn)
   \<and> (\<forall>extmod pyxfn.
        include_dirs (Extension extmod [pyxfn] extincludedirs) =
          (case extincludedirs of None \<Rightarrow> [] | Some dirs \<Rightarrow> dirs))"
proof -
  define prevpaths where "prevpaths = collect_prevsourcepaths e prevextensions []"
  have covered: "realpath e (fst (splitext pyxfn)) \<notin> set prevpaths
                 \<longleftrightarrow> \<not> already_declared e prevextensions pyxfn" for pyxfn
    unfolding prevpaths_def set_collect_prevsourcepaths by blast
  have per_package:
    "map (\<lambda>(extmod, pyxfn). Extension extmod [pyxfn] extincludedirs)
       (filter (\<lambda>(extmod, pyxfn). realpath e (fst (splitext pyxfn)) \<notin> set prevpaths)
          (iter_pyx_files e package_path package_name))
     = (case os_walk e package_path of
         [] \<Rightarrow> []
       | (dirpath, dirnames, filenames) # deeper \<Rightarrow>
           map (\<lambda>fn. Extension (package_name @ ''.'' @ take (length fn - 4) fn)
                       [relpath e (os_path_join dirpath [fn])] extincludedirs)
             (filter (\<lambda>fn. \<not> is_path_hidden e fn \<and> endswith fn ''.pyx''
                         \<and> \<not> already_declared e prevextensions
                               (relpath e (os_path_join dirpath [fn])))
                filenames))" for package_path package_name
  proof (cases "os_walk e package_path")
    case Nil
    then show ?thesis by (simp add: iter_pyx_files_eq)
  next
    case (Cons triple deeper)
    obtain dirpath dirnames filenames where triple: "triple = (dirpath, dirnames, filenames)"
      by (cases triple)
    show ?thesis
      unfolding iter_pyx_files_eq Cons triple list.case prod.case map_filter_map_filter covered
      by (simp add: conj_assoc del: os_path_join.simps)
  qed
  have first: "get_cython_extensions e srcdir packages prevextensions extincludedirs =
     concat (map (\<lambda>package_name.
       case os_walk e (os_path_join srcdir (str_split CHR ''.'' package_name)) of
         [] \<Rightarrow> []
       | (dirpath, dirnames, filenames) # deeper \<Rightarrow>
           map (\<lambda>fn. Extension (package_name @ ''.'' @ take (length fn - 4) fn)
                       [relpath e (os_path_join dirpath [fn])] extincludedirs)
             (filter (\<lambda>fn. \<not> is_path_hidden e fn \<and> endswith fn ''.pyx''
                         \<and> \<not> already_declared e prevextensions
                               (relpath e (os_path_join dirpath [fn])))
                filenames))
       packages)"
    unfolding get_cython_extensions_def Let_def prevpaths_def [symmetric]
      add_package_extensions_eq per_package
    by simp
  have len: "length ''.pyx'' = 4"
    by simp
  have second: "\<forall>fn. endswith fn ''.pyx'' \<longrightarrow> take (length fn - 4) fn @ ''.pyx'' = fn"
  proof (intro allI impI)
    fix fn
    assume "endswith fn ''.pyx''"
    then have "take (length fn - length ''.pyx'') fn @ ''.pyx'' = fn"
      by (rule endswith_strip)
    then show "take (length fn - 4) fn @ ''.pyx'' = fn"
      unfolding len .
  qed
  have third: "\<forall>extmod pyxfn.
        include_dirs (Extension extmod [pyxfn] extincludedirs) =
          (case extincludedirs of None \<Rightarrow> [] | Some dirs \<Rightarrow> dirs)"
    by (simp add: Extension_def)
  from first second third show ?thesis by (intro conjI)
qed

theorem get_cython_extensions_discovery_witness:
  "get_cython_extensions test_pkg_env ''test_pkg'' [''yoda'', ''yoda.luke'']
     [Extension ''yoda.unit01'' [''test_pkg/yoda/unit01.c''] None] (Some [''numpy''])
   = [Extension ''yoda.luke.dagobah'' [''test_pkg/yoda/luke/dagobah.pyx''] (Some [''numpy''])]
   \<and> endswith ''dagobah.pyx'' ''.pyx''
   \<and> take (length ''dagobah.pyx'' - 4) ''dagobah.pyx'' @ ''.pyx'' = ''dagobah.pyx''
   \<and> include_dirs
         (Extension ''yoda.luke.dagobah'' [''test_pkg/yoda/luke/dagobah.pyx''] (Some [''numpy'']))
       = [''numpy'']"
proof -
  note t = get_cython_extensions_discovery
             [of test_pkg_env "''test_pkg''" "[''yoda'', ''yoda.luke'']"
                 "[Extension ''yoda.unit01'' [''test_pkg/yoda/unit01.c''] None]"
                 "Some [''numpy'']"]
  from t have eq: "get_cython_extensions test_pkg_env ''test_pkg'' [''yoda'', ''yoda.luke'']
     [Extension ''yoda.unit01'' [''test_pkg/yoda/unit01.c''] None] (Some [''numpy''])
   = [Extension ''yoda.luke.dagobah'' [''test_pkg/yoda/luke/dagobah.pyx''] (Some [''numpy''])]"
    unfolding test_pkg_discovery_rhs by (rule conjunct1)
  from t have "endswith ''dagobah.pyx'' ''.pyx''
               \<longrightarrow> take (length ''dagobah.pyx'' - 4) ''dagobah.pyx'' @ ''.pyx'' = ''dagobah.pyx''"
    by (elim conjE allE)
  with test_pkg_discovery_facts(1)
  have strip: "take (length ''dagobah.pyx'' - 4) ''dagobah.pyx'' @ ''.pyx'' = ''dagobah.pyx''"
    by (rule rev_mp)
  from t have "include_dirs
         (Extension ''yoda.luke.dagobah'' [''test_pkg/yoda/luke/dagobah.pyx''] (Some [''numpy'']))
       = (case Some [''numpy''] of None \<Rightarrow> [] | Some dirs \<Rightarrow> dirs)"
    by (elim conjE allE)
  then have dirs: "include_dirs
         (Extension ''yoda.luke.dagobah'' [''test_pkg/yoda/luke/dagobah.pyx''] (Some [''numpy'']))
       = [''numpy'']"
    unfolding option.case .
  from eq test_pkg_discovery_facts(1) strip dirs show ?thesis by (intro conjI)
qed

text \<open>
  Claim C3 as it is worded speaks of every file that ends in \<open>.pyx\<close> and of
  \<open>include_dirs\<close> being the argument. The file \<open>.hidden.pyx\<close> lies directly in the
  directory of \<open>yoda.luke\<close>, ends in \<open>.pyx\<close> and is declared by no extension, yet no
  extension \<open>yoda.luke..hidden\<close> is returned; and with the default \<open>None\<close> for
  \<open>extincludedirs\<close> the extension of \<open>dagobah.pyx\<close> has the empty list.
\<close>

theorem hidden_pyx_file_is_not_discovered:
  "os_walk test_pkg_env ''test_pkg/yoda/luke''
     = [(''test_pkg/yoda/luke'', [], [''__init__.py'', ''.hidden.pyx'', ''dagobah.pyx''])]
   \<and> endswith ''.hidden.pyx'' ''.pyx''
   \<and> ''yoda.luke..hidden''
       \<notin> set (map ext_name
                (get_cython_extensions test_pkg_env ''test_pkg'' [''yoda'', ''yoda.luke''] []
                   (Some [''numpy''])))
   \<and> map ext_name
         (get_cython_extensions test_pkg_env ''test_pkg'' [''yoda'', ''yoda.luke''] []
            (Some [''numpy'']))
       = [''yoda.luke.dagobah'']
   \<and> map include_dirs
         (get_cython_extensions test_pkg_env ''test_pkg'' [''yoda'', ''yoda.luke''] [] None)
       = [[]]"
proof -
  have a: "os_walk test_pkg_env ''test_pkg/yoda/luke''
     = [(''test_pkg/yoda/luke'', [], [''__init__.py'', ''.hidden.pyx'', ''dagobah.pyx''])]"
    by code_simp
  have b: "endswith ''.hidden.pyx'' ''.pyx''"
    by code_simp
  have c: "''yoda.luke..hidden''
       \<notin> set (map ext_name
                (get_cython_extensions test_pkg_env ''test_pkg'' [''yoda'', ''yoda.luke''] []
                   (Some [''numpy''])))"
    by code_simp
  have d: "map ext_name
         (get_cython_extensions test_pkg_env ''test_pkg'' [''yoda'', ''yoda.luke''] []
            (Some [''numpy'']))
       = [''yoda.luke.dagobah'']"
    by code_simp
  have f: "map include_dirs
         (get_cython_extensions test_pkg_env ''test_pkg'' [''yoda'', ''yoda.luke''] [] None)
       = [[]]"
    by code_simp
  from a b c d f show ?thesis by (intro conjI)
qed

text \<open>
  Claim C2. The same source file is never registered twice: no source of an extension
  that \<open>get_cython_extensions\<close> returns has, with the file extension stripped, the real
  path of a source of a previously declared extension that ends in \<open>.pyx\<close>, \<open>.c\<close> or
  \<open>.cpp\<close>, with its file extension stripped.
\<close>

theorem get_cython_extensions_no_double_registration:
  assumes "ext \<in> set (get_cython_extensions e srcdir packages prevextensions extincludedirs)"
    and "pyx \<in> set (sources ext)"
    and "prev \<in> set prevextensions"
    and "s \<in> set (sources prev)"
    and "endswith s ''.pyx'' \<or> endswith s ''.c'' \<or> endswith s ''.cpp''"
  shows "realpath e (fst (splitext pyx)) \<noteq> realpath e (fst (splitext s))"
proof -
  define prevpaths where "prevpaths = collect_prevsourcepaths e prevextensions []"
  have old: "realpath e (fst (splitext s)) \<in> set prevpaths"
    unfolding prevpaths_def set_collect_prevsourcepaths using assms(3-5) by blast
  from assms(1) obtain extmod pyxfn where
    ext: "ext = Extension extmod [pyxfn] extincludedirs" and
    new: "realpath e (fst (splitext pyxfn)) \<notin> set prevpaths"
    unfolding get_cython_extensions_def Let_def prevpaths_def [symmetric]
      add_package_extensions_eq
    by auto
  from ext assms(2) have "pyx = pyxfn" by (simp add: Extension_def)
  with old new show ?thesis by auto
qed

theorem get_cython_extensions_no_double_registration_witness:
  "Extension ''yoda.luke.dagobah'' [''test_pkg/yoda/luke/dagobah.pyx''] (Some [''numpy''])
     \<in> set (get_cython_extensions test_pkg_env ''test_pkg'' [''yoda'', ''yoda.luke'']
              [Extension ''yoda.unit01'' [''test_pkg/yoda/unit01.c''] None] (Some [''numpy'']))
   \<and> endswith ''test_pkg/yoda/unit01.c'' ''.c''
   \<and> realpath test_pkg_env (fst (splitext ''test_pkg/yoda/luke/dagobah.pyx''))
       \<noteq> realpath test_pkg_env (fst (splitext ''test_pkg/yoda/unit01.c''))"
proof -
  have new: "''test_pkg/yoda/luke/dagobah.pyx'' \<in> set (sources
     (Extension ''yoda.luke.dagobah'' [''test_pkg/yoda/luke/dagobah.pyx''] (Some [''numpy''])))"
    by (simp add: Extension_def)
  have prev: "Extension ''yoda.unit01'' [''test_pkg/yoda/unit01.c''] None
                \<in> set [Extension ''yoda.unit01'' [''test_pkg/yoda/unit01.c''] None]"
    by simp
  have old: "''test_pkg/yoda/unit01.c'' \<in> set (sources
     (Extension ''yoda.unit01'' [''test_pkg/yoda/unit01.c''] None))"
    by (simp add: Extension_def)
  have suffix: "endswith ''test_pkg/yoda/unit01.c'' ''.pyx''
                \<or> endswith ''test_pkg/yoda/unit01.c'' ''.c''
                \<or> endswith ''test_pkg/yoda/unit01.c'' ''.cpp''"
    using test_pkg_discovery_facts(2) by simp
  have "realpath test_pkg_env (fst (splitext ''test_pkg/yoda/luke/dagobah.pyx''))
       \<noteq> realpath test_pkg_env (fst (splitext ''test_pkg/yoda/unit01.c''))"
    by (rule get_cython_extensions_no_double_registration
               [OF test_pkg_discovery_facts(3) new prev old suffix])
  with test_pkg_discovery_facts(3) test_pkg_discovery_facts(2) show ?thesis by (intro conjI)
qed

subsection \<open>\<open>pkg_config\<close>\<close>

lemma pkg_config_lookup_failed:
  assumes "popen e (executable @ '' --libs --cflags '' @ str_join '' '' packages)
             = Completed out returncode"
    and "returncode \<noteq> 0"
  shows "pkg_config e packages default_libraries executable w =
           (Inr [(''libraries'', map Str default_libraries)],
            warn (PkgConfigLookupFailed packages) w)"
  using assms by (simp add: pkg_config_def Let_def)

lemma pkg_config_process_error:
  assumes "popen e (executable @ '' --libs --cflags '' @ str_join '' '' packages)
             = CalledProcessError cmd returncode out"
  shows "pkg_config e packages default_libraries executable w =
           (Inr [(''libraries'', map Str default_libraries)],
            warn (PkgConfigFailed executable cmd returncode out) w)"
  using assms by (simp add: pkg_config_def Let_def)

lemma pkg_config_state [simp]:
  "state (snd (pkg_config e packages default_libraries executable w)) = state w"
  by (simp add: pkg_config_def Let_def split: popen_result.split)

lemma classify_other_token:
  assumes "decode_ascii (take 2 token) = Inr arg"
    and "map_of flag_map arg = None"
    and "fs_decode e (drop 2 token) = Some val"
  shows "classify_tokens e (token # tokens) result =
           classify_tokens e tokens (args_append result ''extra_compile_args'' (Str val))"
  using assms by simp

text \<open>
  Claim C6. A failed lookup gives a warning and a dictionary whose only entry is
  \<open>libraries\<close> with the default libraries (\<open>pkg_config_lookup_failed\<close>), and the tokens
  of a successful lookup that start with \<open>-I\<close>, \<open>-L\<close>, \<open>-l\<close>, \<open>-D\<close> or \<open>-U\<close> go to
  the entry of that flag. But a token that starts with none of them is not appended to
  \<open>extra_compile_args\<close> as it is: the loop appends \<open>token[2:]\<close>, the token without its
  first two bytes (\<open>classify_other_token\<close>). For the output \<open>-I/opt/foo -lfoo -pthread\<close>
  the compiler argument \<open>-pthread\<close> becomes \<open>thread\<close>.
\<close>

theorem pkg_config_truncates_other_tokens:
  "popen test_pkg_env ''pkg-config --libs --cflags libfoo''
     = Completed (''-I/opt/foo -lfoo -pthread'' @ [CHR 0x0A]) 0
   \<and> pkg_config test_pkg_env [''libfoo''] [''foo''] ''pkg-config'' initial_world
     = (Inr [(''include_dirs'', [Str ''/opt/foo'']),
             (''libraries'', [Str ''foo'']),
             (''extra_compile_args'', [Str ''thread''])],
        initial_world)"
proof -
  have out: "popen test_pkg_env ''pkg-config --libs --cflags libfoo''
               = Completed (''-I/opt/foo -lfoo -pthread'' @ [CHR 0x0A]) 0"
    by (simp add: test_pkg_env_def)
  have res: "fst (pkg_config test_pkg_env [''libfoo''] [''foo''] ''pkg-config'' initial_world)
               = Inr [(''include_dirs'', [Str ''/opt/foo'']),
                      (''libraries'', [Str ''foo'']),
                      (''extra_compile_args'', [Str ''thread''])]"
    by code_simp
  have cmd: "''pkg-config'' @ '' --libs --cflags '' @ str_join '' '' [''libfoo'']
               = ''pkg-config --libs --cflags libfoo''"
    by simp
  have w: "snd (pkg_config test_pkg_env [''libfoo''] [''foo''] ''pkg-config'' initial_world)
             = initial_world"
    unfolding pkg_config_def Let_def cmd out by simp
  from out res w show ?thesis by (simp add: prod_eq_iff)
qed

subsection \<open>Which module state is written\<close>

text \<open>
  Claim C8, as the code has it. \<open>pkg_config\<close> and \<open>add_external_library\<close> leave the
  module state as it is; \<open>iter_setup_packages\<close>, \<open>iter_pyx_files\<close> and
  \<open>get_cython_extensions\<close> neither read nor write it (they are functions of the
  environment alone), so that the module state after \<open>get_package_info\<close>, which calls
  them, is the one its call of \<open>find_packages\<close> leaves. \<open>add_exclude_packages\<close> writes
  the exclusion set only. \<open>find_packages\<close> writes the package cache and, on every call,
  the flag \<open>excludes_too_late\<close>. The entries \<open>registered_commands\<close> and \<open>have_sphinx\<close>
  are never written.
\<close>

theorem module_state_writes:
  "state (snd (pkg_config e packages default_libraries executable w)) = state w
   \<and> state (add_external_library library w) = state w
   \<and> state (snd (add_exclude_packages excludes w)) =
       (state w)\<lparr>exclude_packages :=
          (if excludes_too_late (state w) then exclude_packages (state w)
           else exclude_packages (state w) \<union> set excludes)\<rparr>
   \<and> state (snd (find_packages e where' exclude invalidate_cache w)) =
       (state w)\<lparr>excludes_too_late := True,
                 package_cache := Some (fst (find_packages e where' exclude invalidate_cache w))\<rparr>
   \<and> state (snd (get_package_info e srcdir exclude w)) =
       (state w)\<lparr>excludes_too_late := True,
                 package_cache := Some (fst (find_packages e srcdir exclude False w))\<rparr>"
proof -
  have a: "state (snd (add_exclude_packages excludes w)) =
       (state w)\<lparr>exclude_packages :=
          (if excludes_too_late (state w) then exclude_packages (state w)
           else exclude_packages (state w) \<union> set excludes)\<rparr>"
    by (simp add: add_exclude_packages_def)
  have g: "state (snd (get_package_info e srcdir exclude w)) =
       (state w)\<lparr>excludes_too_late := True,
                 package_cache := Some (fst (find_packages e srcdir exclude False w))\<rparr>"
    unfolding get_package_info_state by (rule find_packages_state)
  from a g show ?thesis
    by (simp add: find_packages_state)
qed

theorem module_state_writes_witness:
  "state (snd (get_package_info test_pkg_env ''test_pkg'' [] initial_world)) =
     \<lparr>registered_commands = None, have_sphinx = False,
      package_cache = Some [''yoda'', ''yoda.luke''],
      exclude_packages = {}, excludes_too_late = True\<rparr>
   \<and> state (snd (add_exclude_packages [''yoda.tests''] initial_world)) =
     \<lparr>registered_commands = None, have_sphinx = False, package_cache = None,
      exclude_packages = {''yoda.tests''}, excludes_too_late = False\<rparr>
   \<and> state (snd (pkg_config test_pkg_env [''libbar''] [''bar''] ''pkg-config'' initial_world)) =
     state initial_world"
  using module_state_writes
          [of test_pkg_env "[''libbar'']" "[''bar'']" "''pkg-config''" initial_world
              "''expat''" "[''yoda.tests'']" "''test_pkg''" "[]" False "''test_pkg''"]
  unfolding test_pkg_packages
  by (simp add: initial_world_def initial_module_state_def)

text \<open>
  Claim C8 as it is worded counts the package cache and the exclusion set only. The
  flag is a third entry that is written: on the freshly loaded module one call of
  \<open>find_packages\<close> changes \<open>excludes_too_late\<close>.
\<close>

theorem find_packages_sets_excludes_too_late:
  "excludes_too_late
     (state (snd (find_packages test_pkg_env ''test_pkg'' [] False initial_world)))
   \<noteq> excludes_too_late (state initial_world)"
  by (simp add: find_packages_state initial_world_def initial_module_state_def)

end
